theory Spec2Isabelle
  imports Main "HOL-Library.AList" "HOL-Library.List_Lexorder" "HOL-Library.Char_ord"
    "HOL-Library.Product_Lexorder"
begin

section \<open>Device lifecycle\<close>

subsection \<open>Device entities (device-management/entities/device.py)\<close>

text \<open>
  \<^verbatim>\<open>class DeviceStatus(PyEnum)\<close>: the five members of the enumeration, in the order of
  the source.
\<close>

datatype DeviceStatus = IN_STOCK | RESERVED | DEPLOYED | MAINTENANCE | RETIRED

text \<open>
  \<^verbatim>\<open>class Device(Base)\<close>: the columns of \<^verbatim>\<open>t_devices\<close> that the lifecycle reads or writes.
  Dates are kept as ISO strings, nullable columns as options.
\<close>

record Device =
  ident :: int
  name :: string
  serial_number :: string
  status :: DeviceStatus
  location :: "string option"
  deploy_date :: "string option"
  last_maintenance_date :: "string option"

text \<open>\<^verbatim>\<open>class DeviceLog(Base)\<close>: one row of \<^verbatim>\<open>t_device_logs\<close>.\<close>

record DeviceLog =
  device_id :: int
  action :: string
  old_status :: "DeviceStatus option"
  new_status :: "DeviceStatus option"
  performed_by :: "int option"
  notes_text :: "string option"
  created_at :: string

subsection \<open>Lifecycle manager\<close>

datatype lifecycle_error = NotFound | InvalidTransition | ValidationError

datatype lifecycle_effect =
  InvalidateDevice int | InvalidateCollection | EmitLifecycleEvent int DeviceStatus DeviceStatus

record lifecycle =
  devices :: "int \<rightharpoonup> Device"
  audit_log :: "DeviceLog list"
  effects :: "lifecycle_effect list"

text \<open>
  Modelled from the spec: the state machine table of the Device Lifecycle Manager
  (section 4.1). The controller and data-access layer that implement the transitions are
  not among the source files; only the \<^verbatim>\<open>DeviceStatus\<close> enumeration and the request
  models are. The table is transcribed row by row.
\<close>

fun allowed :: "DeviceStatus \<Rightarrow> DeviceStatus \<Rightarrow> bool" where
  "allowed IN_STOCK t = (t = RESERVED \<or> t = DEPLOYED \<or> t = RETIRED)"
| "allowed RESERVED t = (t = IN_STOCK \<or> t = DEPLOYED \<or> t = RETIRED)"
| "allowed DEPLOYED t = (t = MAINTENANCE \<or> t = IN_STOCK \<or> t = RETIRED)"
| "allowed MAINTENANCE t = (t = IN_STOCK \<or> t = DEPLOYED \<or> t = RETIRED)"
| "allowed RETIRED t = False"

text \<open>
  Modelled from the spec: the field updates of a successful transition (section 4.1):
  deploying sets \<^verbatim>\<open>deploy_date\<close> and the location, recalling (DEPLOYED to IN_STOCK) clears or
  replaces the location, entering MAINTENANCE sets \<^verbatim>\<open>last_maintenance_date\<close>; any other
  transition replaces the location only when one is supplied.
\<close>

definition apply_transition ::
  "Device \<Rightarrow> DeviceStatus \<Rightarrow> string option \<Rightarrow> string \<Rightarrow> Device" where
  "apply_transition d t loc now =
     (if t = DEPLOYED then d\<lparr>status := t, location := loc, deploy_date := Some now\<rparr>
      else if status d = DEPLOYED \<and> t = IN_STOCK then d\<lparr>status := t, location := loc\<rparr>
      else if t = MAINTENANCE then
        d\<lparr>status := t,
          location := (case loc of None \<Rightarrow> location d | Some l \<Rightarrow> Some l),
          last_maintenance_date := Some now\<rparr>
      else d\<lparr>status := t, location := (case loc of None \<Rightarrow> location d | Some l \<Rightarrow> Some l)\<rparr>)"

text \<open>
  Modelled from the spec: \<^verbatim>\<open>transition(deviceId, targetStatus, location?, notes?)\<close>, the sole
  path that changes a status (section 4.1). It fails with \<^verbatim>\<open>NotFound\<close> for an unknown id
  and with \<^verbatim>\<open>InvalidTransition\<close> when the pair (current, target) is not in the table;
  deploying requires a location. On success it writes the device, appends one audit entry,
  invalidates the two cache entries and emits a lifecycle event. The result is paired with
  the state after the call, so that a failed call shows the state it leaves.
\<close>

definition transition ::
  "lifecycle \<Rightarrow> int \<Rightarrow> DeviceStatus \<Rightarrow> string option \<Rightarrow> string option \<Rightarrow> string
     \<Rightarrow> (lifecycle_error + Device) \<times> lifecycle" where
  "transition s i t loc nts now =
     (case devices s i of
        None \<Rightarrow> (Inl NotFound, s)
      | Some d \<Rightarrow>
          if \<not> allowed (status d) t then (Inl InvalidTransition, s)
          else if t = DEPLOYED \<and> loc = None then (Inl ValidationError, s)
          else
            let d' = apply_transition d t loc now;
                entry = \<lparr>device_id = i, action = ''status_change'',
                         old_status = Some (status d), new_status = Some t,
                         performed_by = None, notes_text = nts, created_at = now\<rparr>
            in (Inr d',
                s\<lparr>devices := (devices s)(i \<mapsto> d'),
                  audit_log := audit_log s @ [entry],
                  effects := effects s @
                    [InvalidateDevice i, InvalidateCollection,
                     EmitLifecycleEvent i (status d) t]\<rparr>))"

text \<open>
  The scenario of the spec's section 8: device \<^verbatim>\<open>SN-001\<close>, deployed at \<^verbatim>\<open>Bay-2\<close>.
\<close>

definition sn001 :: Device where
  "sn001 = \<lparr>ident = 1, name = ''probe'', serial_number = ''SN-001'', status = DEPLOYED,
             location = Some ''Bay-2'', deploy_date = Some ''2024-01-15T12:00:00'',
             last_maintenance_date = None\<rparr>"

definition fleet :: lifecycle where
  "fleet = \<lparr>devices = [1 \<mapsto> sn001], audit_log = [], effects = []\<rparr>"

section \<open>Python values and dictionaries\<close>

text \<open>
  The values that travel through the pipeline: what \<^verbatim>\<open>json.loads\<close> produces (floats
  apart, which no operation below inspects), and the \<^verbatim>\<open>ObjectId\<close> that the document
  store assigns. A dictionary keeps its insertion order; its keys are strings.
\<close>

datatype pyval =
    PyNone
  | PyBool bool
  | PyInt int
  | PyStr string
  | PyList "pyval list"
  | PyDict "(string \<times> pyval) list"
  | ObjectId nat

type_synonym pydict = "(string \<times> pyval) list"

text \<open>Truth value testing (\<^verbatim>\<open>if x:\<close>).\<close>

fun truthy :: "pyval \<Rightarrow> bool" where
  "truthy PyNone = False"
| "truthy (PyBool b) = b"
| "truthy (PyInt n) = (n \<noteq> 0)"
| "truthy (PyStr s) = (s \<noteq> [])"
| "truthy (PyList xs) = (xs \<noteq> [])"
| "truthy (PyDict kvs) = (kvs \<noteq> [])"
| "truthy (ObjectId n) = True"

text \<open>
  \<^verbatim>\<open>d.get(k)\<close>, \<^verbatim>\<open>d[k] = v\<close>, \<^verbatim>\<open>d.pop(k)\<close> and \<^verbatim>\<open>d.update(e)\<close>. Assignment to a key that
  exists keeps its position, a new key goes to the end.
\<close>

definition py_get :: "pydict \<Rightarrow> string \<Rightarrow> pyval option" where
  "py_get d k = map_of d k"

definition py_set :: "pydict \<Rightarrow> string \<Rightarrow> pyval \<Rightarrow> pydict" where
  "py_set d k v = AList.update k v d"

definition py_pop :: "pydict \<Rightarrow> string \<Rightarrow> pydict" where
  "py_pop d k = AList.delete k d"

definition py_update :: "pydict \<Rightarrow> pydict \<Rightarrow> pydict" where
  "py_update d e = foldl (\<lambda>acc kv. AList.update (fst kv) (snd kv) acc) d e"

definition has_key :: "pydict \<Rightarrow> string \<Rightarrow> bool" where
  "has_key d k = (k \<in> set (map fst d))"

datatype log_level = INFO | WARNING | ERROR

type_synonym log_entry = "log_level \<times> string"

section \<open>Broadcast fan-out (monitoring/services/socketio_service.py)\<close>

text \<open>
  \<^verbatim>\<open>asyncio.Queue(maxsize=0)\<close>: \<^verbatim>\<open>full()\<close> is false whenever \<^verbatim>\<open>maxsize <= 0\<close>, and
  \<^verbatim>\<open>put_nowait\<close> raises \<^verbatim>\<open>QueueFull\<close> exactly when the queue is full.
\<close>

record 'a async_queue =
  maxsize :: int
  items :: "'a list"

datatype queue_error = QueueFull

definition Queue :: "int \<Rightarrow> 'a async_queue" where
  "Queue m = \<lparr>maxsize = m, items = []\<rparr>"

definition full :: "'a async_queue \<Rightarrow> bool" where
  "full q = (if maxsize q \<le> 0 then False else int (length (items q)) \<ge> maxsize q)"

definition put_nowait :: "'a async_queue \<Rightarrow> 'a \<Rightarrow> queue_error + 'a async_queue" where
  "put_nowait q x = (if full q then Inl QueueFull else Inr (q\<lparr>items := items q @ [x]\<rparr>))"

text \<open>
  \<^verbatim>\<open>SocketIOService\<close>: the queue between the consumer and the dispatch loop, and what the
  service logs. \<^verbatim>\<open>__init__\<close> builds the queue with \<^verbatim>\<open>asyncio.Queue()\<close>, that is with the
  default \<^verbatim>\<open>maxsize=0\<close>.
\<close>

record SocketIOService =
  broadcast_queue :: "(string \<times> pydict) async_queue"
  service_log :: "log_entry list"

definition SocketIOService_init :: SocketIOService where
  "SocketIOService_init = \<lparr>broadcast_queue = Queue 0, service_log = []\<rparr>"

text \<open>
  \<^verbatim>\<open>queue_broadcast(event, data)\<close>: logs, pushes with \<^verbatim>\<open>put_nowait\<close>, and catches and logs
  any exception of the push.
\<close>

definition queue_broadcast :: "SocketIOService \<Rightarrow> string \<Rightarrow> pydict \<Rightarrow> SocketIOService" where
  "queue_broadcast svc event data =
     (let svc1 = svc\<lparr>service_log := service_log svc @ [(INFO, ''Queueing event for broadcast'')]\<rparr>
      in case put_nowait (broadcast_queue svc1) (event, data) of
           Inr q \<Rightarrow> svc1\<lparr>broadcast_queue := q\<rparr>
         | Inl QueueFull \<Rightarrow>
             svc1\<lparr>service_log := service_log svc1 @ [(ERROR, ''Error queueing broadcast'')]\<rparr>)"

text \<open>A run of the consumer's calls, in order.\<close>

definition queue_all :: "SocketIOService \<Rightarrow> (string \<times> pydict) list \<Rightarrow> SocketIOService" where
  "queue_all svc evs = foldl (\<lambda>s ev. queue_broadcast s (fst ev) (snd ev)) svc evs"

section \<open>Exceptions\<close>

text \<open>
  The exceptions that the modelled code raises, catches or lets through. \<^verbatim>\<open>RedisError\<close>
  stands for \<^verbatim>\<open>redis.RedisError\<close> with the subclass that was raised; \<^verbatim>\<open>OtherException\<close>
  for any other subclass of \<^verbatim>\<open>Exception\<close>.
\<close>

datatype redis_error = ConnectionError | TimeoutError | ResponseError

datatype exc =
    JSONDecodeError
  | AttributeError
  | TypeError
  | KeyError string
  | ValueError
  | PydanticValidationError
  | RequestValidationError
  | RedisError redis_error
  | AMQPConnectionError
  | AMQPChannelError
  | RequestException
  | PyMongoError
  | OtherException

text \<open>
  \<^verbatim>\<open>json.dumps\<close> raises \<^verbatim>\<open>TypeError\<close> on a value that is not JSON serializable; of the
  values above that is an \<^verbatim>\<open>ObjectId\<close>, at any depth. The text that it returns is
  represented by the value itself.
\<close>

fun serializable :: "pyval \<Rightarrow> bool" where
  "serializable (PyList xs) = list_all serializable xs"
| "serializable (PyDict kvs) = list_all serializable (map snd kvs)"
| "serializable (ObjectId n) = False"
| "serializable v = True"

definition json_dumps :: "pyval \<Rightarrow> exc + pyval" where
  "json_dumps v = (if serializable v then Inr v else Inl TypeError)"

section \<open>Read cache (device-management/services/cache_service.py)\<close>

subsection \<open>The Redis server as the client sees it\<close>








subsection \<open>CacheService\<close>




definition is_redis_error :: "exc \<Rightarrow> bool" where
  "is_redis_error e = (case e of RedisError k \<Rightarrow> True | _ \<Rightarrow> False)"






section \<open>Clock\<close>

text \<open>
  \<^verbatim>\<open>datetime\<close> values as the code uses them: \<^verbatim>\<open>utcnow()\<close> is an input of every function
  that reads the clock, \<^verbatim>\<open>replace(day=d)\<close> raises \<^verbatim>\<open>ValueError\<close> unless \<open>d\<close> is a day of
  the month of the value, and \<^verbatim>\<open>isoformat()\<close> prints \<^verbatim>\<open>YYYY-MM-DDTHH:MM:SS\<close>, followed by
  \<^verbatim>\<open>.ffffff\<close> when the microseconds are not zero.
\<close>

record datetime =
  year :: int
  month :: int
  day :: int
  hour :: int
  minute :: int
  second :: int
  microsecond :: int

definition is_leap :: "int \<Rightarrow> bool" where
  "is_leap y = (y mod 4 = 0 \<and> (y mod 100 \<noteq> 0 \<or> y mod 400 = 0))"

definition days_in_month :: "int \<Rightarrow> int \<Rightarrow> int" where
  "days_in_month y m =
     (if m = 2 then (if is_leap y then 29 else 28)
      else if m = 4 \<or> m = 6 \<or> m = 9 \<or> m = 11 then 30 else 31)"

definition valid_datetime :: "datetime \<Rightarrow> bool" where
  "valid_datetime t =
     (1 \<le> year t \<and> year t \<le> 9999 \<and> 1 \<le> month t \<and> month t \<le> 12 \<and>
      1 \<le> day t \<and> day t \<le> days_in_month (year t) (month t) \<and>
      0 \<le> hour t \<and> hour t \<le> 23 \<and> 0 \<le> minute t \<and> minute t \<le> 59 \<and>
      0 \<le> second t \<and> second t \<le> 59 \<and> 0 \<le> microsecond t \<and> microsecond t \<le> 999999)"

definition replace_day :: "datetime \<Rightarrow> int \<Rightarrow> exc + datetime" where
  "replace_day t d =
     (if 1 \<le> d \<and> d \<le> days_in_month (year t) (month t) then Inr (t\<lparr>day := d\<rparr>)
      else Inl ValueError)"

text \<open>The decimal digit of a number below ten, read off the digit string.\<close>

definition digit_char :: "nat \<Rightarrow> char" where
  "digit_char n = ''0123456789'' ! (n mod 10)"

fun zpad :: "nat \<Rightarrow> nat \<Rightarrow> string" where
  "zpad 0 n = []"
| "zpad (Suc w) n = zpad w (n div 10) @ [digit_char (n mod 10)]"

definition isoformat :: "datetime \<Rightarrow> string" where
  "isoformat t =
     zpad 4 (nat (year t)) @ ''-'' @ zpad 2 (nat (month t)) @ ''-'' @ zpad 2 (nat (day t)) @
     ''T'' @ zpad 2 (nat (hour t)) @ '':'' @ zpad 2 (nat (minute t)) @ '':'' @
     zpad 2 (nat (second t)) @
     (if microsecond t = 0 then [] else ''.'' @ zpad 6 (nat (microsecond t)))"

section \<open>Event publisher (device-management/services/rabbitmq_publisher.py)\<close>

subsection \<open>The broker as the publisher sees it\<close>

text \<open>
  What the publisher asks of the broker, in order, with the outcome of each request taken
  from a schedule of faults as for the cache. A request either returns or raises; the
  publisher turns on no delivery confirmation, so it learns nothing more about a message
  than that \<^verbatim>\<open>basic_publish\<close> returned.
\<close>

datatype broker_op =
    Connect
  | OpenChannel
  | ExchangeDeclare string
  | BasicPublish string pyval

record broker =
  broker_faults :: "exc option list"
  broker_ops :: "broker_op list"

definition request :: "broker \<Rightarrow> broker_op \<Rightarrow> (exc + unit) \<times> broker" where
  "request b op =
     (let b1 = b\<lparr>broker_ops := broker_ops b @ [op]\<rparr> in
      case broker_faults b1 of
        [] \<Rightarrow> (Inr (), b1)
      | None # fs \<Rightarrow> (Inr (), b1\<lparr>broker_faults := fs\<rparr>)
      | Some e # fs \<Rightarrow> (Inl e, b1\<lparr>broker_faults := fs\<rparr>))"

subsection \<open>RabbitMQPublisher\<close>

text \<open>
  \<^verbatim>\<open>_connection\<close> and \<^verbatim>\<open>_channel\<close> are \<^verbatim>\<open>None\<close> or a handle; of a handle the code reads
  \<^verbatim>\<open>is_closed\<close> only, so a handle is that flag. A handle whose flag is false may still be
  dead: the loss of the socket is noticed when the next request on it fails.
\<close>

record RabbitMQPublisher =
  connection_handle :: "bool option"
  channel_handle :: "bool option"
  rabbit :: broker
  publisher_log :: "log_entry list"

definition pub_logged :: "RabbitMQPublisher \<Rightarrow> log_level \<Rightarrow> string \<Rightarrow> RabbitMQPublisher" where
  "pub_logged p lv msg = p\<lparr>publisher_log := publisher_log p @ [(lv, msg)]\<rparr>"

definition pub_request :: "RabbitMQPublisher \<Rightarrow> broker_op \<Rightarrow> (exc + unit) \<times> RabbitMQPublisher" where
  "pub_request p op = (case request (rabbit p) op of (r, b) \<Rightarrow> (r, p\<lparr>rabbit := b\<rparr>))"

text \<open>
  The \<^verbatim>\<open>connection\<close> property: when there is no connection or it is closed, connect, open
  a channel and declare the topic exchange \<^verbatim>\<open>device_events\<close>. Each assignment happens as
  its request succeeds. An \<^verbatim>\<open>AMQPConnectionError\<close> is logged and raised again; any other
  exception passes through.
\<close>

definition connection_raised :: "exc \<Rightarrow> RabbitMQPublisher \<Rightarrow> (exc + unit) \<times> RabbitMQPublisher" where
  "connection_raised e p =
     (if e = AMQPConnectionError then (Inl e, pub_logged p ERROR ''RabbitMQ connection failed'')
      else (Inl e, p))"

definition connection :: "RabbitMQPublisher \<Rightarrow> (exc + unit) \<times> RabbitMQPublisher" where
  "connection p =
     (if connection_handle p = None \<or> connection_handle p = Some True then
        (case pub_request p Connect of
           (Inl e, p1) \<Rightarrow> connection_raised e p1
         | (Inr u, p1) \<Rightarrow>
             (case pub_request (p1\<lparr>connection_handle := Some False\<rparr>) OpenChannel of
                (Inl e, p2) \<Rightarrow> connection_raised e p2
              | (Inr u, p2) \<Rightarrow>
                  (case pub_request (p2\<lparr>channel_handle := Some False\<rparr>)
                          (ExchangeDeclare ''device_events'') of
                     (Inl e, p3) \<Rightarrow> connection_raised e p3
                   | (Inr u, p3) \<Rightarrow> (Inr (), pub_logged p3 INFO ''RabbitMQ connected''))))
      else (Inr (), p))"

text \<open>
  The \<^verbatim>\<open>channel\<close> property: when there is no channel or it is closed, read \<^verbatim>\<open>connection\<close>
  and open a channel on it.
\<close>

definition channel :: "RabbitMQPublisher \<Rightarrow> (exc + unit) \<times> RabbitMQPublisher" where
  "channel p =
     (if channel_handle p = None \<or> channel_handle p = Some True then
        (case connection p of
           (Inl e, p1) \<Rightarrow> (Inl e, p1)
         | (Inr u, p1) \<Rightarrow>
             (case pub_request p1 OpenChannel of
                (Inl e, p2) \<Rightarrow> (Inl e, p2)
              | (Inr u, p2) \<Rightarrow> (Inr (), p2\<lparr>channel_handle := Some False\<rparr>)))
      else (Inr (), p))"

text \<open>
  The two \<^verbatim>\<open>except\<close> clauses of \<^verbatim>\<open>publish_event\<close>: a connection or channel error resets
  both handles; every exception is logged and turned into \<^verbatim>\<open>False\<close>.
\<close>

definition publish_failed :: "exc \<Rightarrow> RabbitMQPublisher \<Rightarrow> bool \<times> RabbitMQPublisher" where
  "publish_failed e p =
     (if e = AMQPConnectionError \<or> e = AMQPChannelError
      then (False, (pub_logged p ERROR ''RabbitMQ publish error'')
                     \<lparr>connection_handle := None, channel_handle := None\<rparr>)
      else (False, pub_logged p ERROR ''Unexpected RabbitMQ error''))"

text \<open>
  \<^verbatim>\<open>publish_event(routing_key, event_data)\<close>: adds a timestamp when the event has none,
  serializes, publishes on the channel, and returns whether that worked. The event with
  its timestamp is returned as well, since the caller's dictionary is updated in place.
\<close>

definition stamp :: "pydict \<Rightarrow> datetime \<Rightarrow> pydict" where
  "stamp event_data now =
     (if \<not> has_key event_data ''timestamp''
      then py_set event_data ''timestamp'' (PyStr (isoformat now))
      else event_data)"

definition publish_event ::
  "RabbitMQPublisher \<Rightarrow> string \<Rightarrow> pydict \<Rightarrow> datetime \<Rightarrow> bool \<times> pydict \<times> RabbitMQPublisher" where
  "publish_event p routing_key event_data now =
     (let ev = stamp event_data now in
      case json_dumps (PyDict ev) of
        Inl e \<Rightarrow> (case publish_failed e p of (r, p') \<Rightarrow> (r, ev, p'))
      | Inr message \<Rightarrow>
          (case channel p of
             (Inl e, p1) \<Rightarrow> (case publish_failed e p1 of (r, p') \<Rightarrow> (r, ev, p'))
           | (Inr u, p1) \<Rightarrow>
               (case pub_request p1 (BasicPublish routing_key message) of
                  (Inl e, p2) \<Rightarrow> (case publish_failed e p2 of (r, p') \<Rightarrow> (r, ev, p'))
                | (Inr u, p2) \<Rightarrow>
                    (True, ev, pub_logged p2 INFO ''Published event''))))"

text \<open>\<^verbatim>\<open>publish_telemetry\<close>, \<^verbatim>\<open>publish_device_event\<close> and \<^verbatim>\<open>publish_status_change\<close>.\<close>

definition publish_telemetry ::
  "RabbitMQPublisher \<Rightarrow> int \<Rightarrow> string \<Rightarrow> pydict \<Rightarrow> datetime
     \<Rightarrow> bool \<times> pydict \<times> RabbitMQPublisher" where
  "publish_telemetry p dev_id dev_name data now =
     publish_event p ''device.telemetry''
       [(''event_type'', PyStr ''telemetry''), (''device_id'', PyInt dev_id),
        (''device_name'', PyStr dev_name), (''data'', PyDict data)] now"

definition publish_device_event ::
  "RabbitMQPublisher \<Rightarrow> int \<Rightarrow> string \<Rightarrow> string \<Rightarrow> pydict \<Rightarrow> datetime
     \<Rightarrow> bool \<times> pydict \<times> RabbitMQPublisher" where
  "publish_device_event p dev_id dev_name event_type details now =
     publish_event p ''device.event''
       [(''event_type'', PyStr event_type), (''device_id'', PyInt dev_id),
        (''device_name'', PyStr dev_name), (''details'', PyDict details)] now"

definition publish_status_change ::
  "RabbitMQPublisher \<Rightarrow> int \<Rightarrow> string \<Rightarrow> string \<Rightarrow> string \<Rightarrow> string option \<Rightarrow> datetime
     \<Rightarrow> bool \<times> pydict \<times> RabbitMQPublisher" where
  "publish_status_change p dev_id dev_name old new loc now =
     publish_device_event p dev_id dev_name ''status_change''
       [(''old_status'', PyStr old), (''new_status'', PyStr new),
        (''location'', (case loc of None \<Rightarrow> PyNone | Some l \<Rightarrow> PyStr l))] now"

text \<open>The requests that a call added to the broker's record.\<close>

definition new_ops :: "RabbitMQPublisher \<Rightarrow> RabbitMQPublisher \<Rightarrow> broker_op list" where
  "new_ops p p' = drop (length (broker_ops (rabbit p))) (broker_ops (rabbit p'))"

definition is_publish :: "broker_op \<Rightarrow> bool" where
  "is_publish op = (case op of BasicPublish k m \<Rightarrow> True | _ \<Rightarrow> False)"

text \<open>
  The scheduled outcomes of the next \<open>n\<close> requests are all successes: none of them raises.
\<close>

definition answered :: "broker \<Rightarrow> nat \<Rightarrow> bool" where
  "answered b n = list_all (\<lambda>f. f = None) (take n (broker_faults b))"

text \<open>
  Between the broker states \<open>b\<close> and \<open>b'\<close> exactly the requests \<open>ops\<close> were sent, each took
  its outcome from the schedule, and \<open>ok\<close> tells whether all of them returned.
\<close>

definition ran :: "broker \<Rightarrow> broker \<Rightarrow> broker_op list \<Rightarrow> bool \<Rightarrow> bool" where
  "ran b b' ops ok =
     (broker_ops b' = broker_ops b @ ops \<and>
      broker_faults b' = drop (length ops) (broker_faults b) \<and>
      ok = answered b (length ops))"

text \<open>
  Two publishers at the same moment (noon of 15 January 2024): one that has never
  connected, facing a broker that answers every request, and one whose handles look open
  while the socket behind them is gone, so that the next request on them fails and a fresh
  connection would work.
\<close>

definition noon :: datetime where
  "noon = \<lparr>year = 2024, month = 1, day = 15, hour = 12, minute = 0, second = 0,
           microsecond = 0\<rparr>"

definition fresh_publisher :: RabbitMQPublisher where
  "fresh_publisher =
     \<lparr>connection_handle = None, channel_handle = None,
      rabbit = \<lparr>broker_faults = [], broker_ops = []\<rparr>, publisher_log = []\<rparr>"

definition stale_publisher :: RabbitMQPublisher where
  "stale_publisher =
     \<lparr>connection_handle = Some False, channel_handle = Some False,
      rabbit = \<lparr>broker_faults = [Some AMQPConnectionError], broker_ops = []\<rparr>,
      publisher_log = []\<rparr>"

definition reading :: pydict where
  "reading = [(''device_id'', PyInt 7), (''event_type'', PyStr ''alert'')]"

text \<open>A scheduled outcome that is no fault or one of the two errors that reset the handles.\<close>

definition amqp_fault :: "exc option \<Rightarrow> bool" where
  "amqp_fault f = (f = None \<or> f = Some AMQPConnectionError \<or> f = Some AMQPChannelError)"

section \<open>Event store (monitoring/dal)\<close>

subsection \<open>A collection of the document store\<close>

text \<open>
  A collection holds its documents in insertion order, the counter from which it draws
  fresh \<^verbatim>\<open>ObjectId\<close>s, and a schedule of faults: each command sent to the server takes the
  next element and raises it when it is an exception.
\<close>

record collection =
  docs :: "pydict list"
  next_oid :: nat
  mongo_faults :: "exc option list"

definition mongo_fault :: "collection \<Rightarrow> exc option \<times> collection" where
  "mongo_fault c =
     (case mongo_faults c of [] \<Rightarrow> (None, c) | f # fs \<Rightarrow> (f, c\<lparr>mongo_faults := fs\<rparr>))"

text \<open>
  \<^verbatim>\<open>insert_one(document)\<close>: the driver gives the document an \<^verbatim>\<open>_id\<close> when it has none,
  before it sends it, so the caller's dictionary has the key even when the insert fails.
  The server refuses an \<^verbatim>\<open>_id\<close> that the collection already holds. The result is the
  \<^verbatim>\<open>inserted_id\<close>, the document as the caller sees it afterwards, and the collection.
\<close>

definition insert_one :: "collection \<Rightarrow> pydict \<Rightarrow> (exc + pyval) \<times> pydict \<times> collection" where
  "insert_one c document =
     (let (doc, c1) =
            (if has_key document ''_id'' then (document, c)
             else (py_set document ''_id'' (ObjectId (next_oid c)),
                   c\<lparr>next_oid := Suc (next_oid c)\<rparr>));
          oid = (case py_get doc ''_id'' of None \<Rightarrow> PyNone | Some i \<Rightarrow> i)
      in case mongo_fault c1 of
           (Some e, c2) \<Rightarrow> (Inl e, doc, c2)
         | (None, c2) \<Rightarrow>
             if list_ex (\<lambda>d. py_get d ''_id'' = Some oid) (docs c2)
             then (Inl PyMongoError, doc, c2)
             else (Inr oid, doc, c2\<lparr>docs := docs c2 @ [doc]\<rparr>))"

text \<open>
  A query document \<^verbatim>\<open>{k: v, ...}\<close> matches a document when every field \<open>k\<close> equals \<open>v\<close> or
  is an array that contains \<open>v\<close>; a missing field matches \<^verbatim>\<open>null\<close> only.
\<close>

definition value_matches :: "pyval \<Rightarrow> pyval \<Rightarrow> bool" where
  "value_matches x v = (x = v \<or> (case x of PyList xs \<Rightarrow> v \<in> set xs | _ \<Rightarrow> False))"

definition field_matches :: "pydict \<Rightarrow> string \<times> pyval \<Rightarrow> bool" where
  "field_matches d kv =
     (case py_get d (fst kv) of None \<Rightarrow> snd kv = PyNone | Some x \<Rightarrow> value_matches x (snd kv))"

definition matches :: "pydict \<Rightarrow> pydict \<Rightarrow> bool" where
  "matches query d = list_all (field_matches d) query"

text \<open>
  The order in which the server compares values of a field: by type first (null or
  missing, numbers, strings, objects, arrays, object ids, Booleans), then numbers by value
  and strings by their bytes. Objects and arrays are compared by their type only. The
  server promises no order among documents whose keys are equal; the sort below returns
  them in the reverse of their insertion order.
\<close>

fun bson_key :: "pyval option \<Rightarrow> nat \<times> int \<times> string" where
  "bson_key None = (1, 0, [])"
| "bson_key (Some PyNone) = (1, 0, [])"
| "bson_key (Some (PyInt n)) = (2, n, [])"
| "bson_key (Some (PyStr s)) = (3, 0, s)"
| "bson_key (Some (PyDict kvs)) = (4, 0, [])"
| "bson_key (Some (PyList xs)) = (5, 0, [])"
| "bson_key (Some (ObjectId n)) = (7, int n, [])"
| "bson_key (Some (PyBool b)) = (8, (if b then 1 else 0), [])"

text \<open>
  \<^verbatim>\<open>find(query).sort(field, -1).limit(n)\<close>. A limit of 0 is no limit, and a negative limit
  returns as many documents as its absolute value.
\<close>

definition sort_desc :: "string \<Rightarrow> pydict list \<Rightarrow> pydict list" where
  "sort_desc field ds = rev (sort_key (\<lambda>d. bson_key (py_get d field)) ds)"

definition limit_docs :: "int \<Rightarrow> pydict list \<Rightarrow> pydict list" where
  "limit_docs n ds = (if n = 0 then ds else take (nat \<bar>n\<bar>) ds)"

definition find_sorted ::
  "collection \<Rightarrow> pydict \<Rightarrow> string \<Rightarrow> int \<Rightarrow> (exc + pydict list) \<times> collection" where
  "find_sorted c query field n =
     (case mongo_fault c of
        (Some e, c1) \<Rightarrow> (Inl e, c1)
      | (None, c1) \<Rightarrow> (Inr (limit_docs n (sort_desc field (filter (matches query) (docs c1)))), c1))"

text \<open>
  \<^verbatim>\<open>delete_many({field: {"$lt": bound}})\<close> with a string bound removes the documents whose
  field is a string below the bound, and reports how many it removed.
\<close>

definition below :: "string \<Rightarrow> string \<Rightarrow> pydict \<Rightarrow> bool" where
  "below field bound d = (case py_get d field of Some (PyStr s) \<Rightarrow> s < bound | _ \<Rightarrow> False)"

definition delete_many_lt ::
  "collection \<Rightarrow> string \<Rightarrow> string \<Rightarrow> (exc + int) \<times> collection" where
  "delete_many_lt c field bound =
     (case mongo_fault c of
        (Some e, c1) \<Rightarrow> (Inl e, c1)
      | (None, c1) \<Rightarrow>
          (Inr (int (length (filter (below field bound) (docs c1)))),
           c1\<lparr>docs := filter (\<lambda>d. \<not> below field bound d) (docs c1)\<rparr>))"

subsection \<open>Response models (monitoring/dto)\<close>

text \<open>
  The response models keep the stored values. Whether the validation of a model accepts a
  value for an integer, a string, an optional string or a dictionary field is decided by
  the validation library; it is a parameter of the queries below, which hold for every
  such decision.
\<close>

record validation =
  int_ok :: "pyval \<Rightarrow> bool"
  str_ok :: "pyval \<Rightarrow> bool"
  dict_ok :: "pyval \<Rightarrow> bool"

record EventResponse =
  event_id :: pyval
  event_device_id :: pyval
  event_type :: pyval
  event_timestamp :: pyval
  details :: pyval

record TelemetryResponse =
  telemetry_id :: pyval
  telemetry_device_id :: pyval
  telemetry_timestamp :: pyval
  device_name :: pyval
  telemetry_location :: pyval
  extra :: pydict

text \<open>Validation by type alone, for running the queries on examples.\<close>

definition by_type :: validation where
  "by_type =
     \<lparr>int_ok = (\<lambda>v. case v of PyInt n \<Rightarrow> True | _ \<Rightarrow> False),
      str_ok = (\<lambda>v. case v of PyStr s \<Rightarrow> True | _ \<Rightarrow> False),
      dict_ok = (\<lambda>v. case v of PyDict kvs \<Rightarrow> True | _ \<Rightarrow> False)\<rparr>"

subsection \<open>EventsDAO (monitoring/dal/events_dao.py)\<close>

text \<open>\<^verbatim>\<open>insert(data)\<close>: adds a timestamp when there is none, then inserts.\<close>

definition EventsDAO_insert ::
  "collection \<Rightarrow> pydict \<Rightarrow> datetime \<Rightarrow> (exc + pyval) \<times> pydict \<times> collection" where
  "EventsDAO_insert c data now =
     (let data1 = (if \<not> has_key data ''timestamp''
                   then py_set data ''timestamp'' (PyStr (isoformat now)) else data)
      in insert_one c data1)"

text \<open>
  The query document of \<^verbatim>\<open>get_all\<close>: a filter enters it when its value is truthy, so
  neither \<^verbatim>\<open>None\<close> nor 0 nor the empty string does.
\<close>

definition build_query :: "int option \<Rightarrow> string \<Rightarrow> string option \<Rightarrow> pydict" where
  "build_query dev_id type_field type_value =
     (let query = [];
          query = (case dev_id of
                     None \<Rightarrow> query
                   | Some n \<Rightarrow> if truthy (PyInt n) then py_set query ''device_id'' (PyInt n)
                              else query);
          query = (case type_value of
                     None \<Rightarrow> query
                   | Some s \<Rightarrow> if truthy (PyStr s) then py_set query type_field (PyStr s)
                              else query)
      in query)"

text \<open>One \<^verbatim>\<open>EventResponse(...)\<close> of the loop: \<^verbatim>\<open>doc[k]\<close> raises \<^verbatim>\<open>KeyError\<close> on a missing key.\<close>

definition event_response :: "validation \<Rightarrow> pydict \<Rightarrow> exc + EventResponse" where
  "event_response v doc =
     (case py_get doc ''_id'' of
        None \<Rightarrow> Inl (KeyError ''_id'')
      | Some i \<Rightarrow>
          (case py_get doc ''device_id'' of
             None \<Rightarrow> Inl (KeyError ''device_id'')
           | Some dv \<Rightarrow>
               (case py_get doc ''timestamp'' of
                  None \<Rightarrow> Inl (KeyError ''timestamp'')
                | Some ts \<Rightarrow>
                    let ty = (case py_get doc ''event_type'' of None \<Rightarrow> PyStr [] | Some t \<Rightarrow> t);
                        de = (case py_get doc ''details'' of None \<Rightarrow> PyDict [] | Some d \<Rightarrow> d)
                    in if int_ok v dv \<and> str_ok v ty \<and> str_ok v ts \<and> dict_ok v de
                       then Inr \<lparr>event_id = i, event_device_id = dv, event_type = ty,
                                 event_timestamp = ts, details = de\<rparr>
                       else Inl PydanticValidationError)))"

text \<open>The loop over the cursor stops at the first document that raises.\<close>

fun collect :: "('a \<Rightarrow> exc + 'b) \<Rightarrow> 'a list \<Rightarrow> exc + 'b list" where
  "collect f [] = Inr []"
| "collect f (x # xs) =
     (case f x of
        Inl e \<Rightarrow> Inl e
      | Inr y \<Rightarrow> (case collect f xs of Inl e \<Rightarrow> Inl e | Inr ys \<Rightarrow> Inr (y # ys)))"

definition EventsDAO_get_all ::
  "validation \<Rightarrow> collection \<Rightarrow> int option \<Rightarrow> string option \<Rightarrow> int
     \<Rightarrow> (exc + EventResponse list) \<times> collection" where
  "EventsDAO_get_all v c dev_id ev_type limit =
     (case find_sorted c (build_query dev_id ''event_type'' ev_type) ''timestamp'' limit of
        (Inl e, c1) \<Rightarrow> (Inl e, c1)
      | (Inr cursor, c1) \<Rightarrow> (collect (event_response v) cursor, c1))"

text \<open>
  \<^verbatim>\<open>delete_old_data(days)\<close>: the cutoff is the current time with its day of the month
  replaced by \<^verbatim>\<open>day - days\<close>.
\<close>

definition EventsDAO_delete_old_data ::
  "collection \<Rightarrow> int \<Rightarrow> datetime \<Rightarrow> (exc + int) \<times> collection" where
  "EventsDAO_delete_old_data c days now =
     (let cutoff_date = now in
      case replace_day cutoff_date (day cutoff_date - days) of
        Inl e \<Rightarrow> (Inl e, c)
      | Inr cutoff_date \<Rightarrow> delete_many_lt c ''timestamp'' (isoformat cutoff_date))"

subsection \<open>TelemetryDAO (monitoring/dal/telemetry_dao.py)\<close>

definition TelemetryDAO_insert ::
  "collection \<Rightarrow> pydict \<Rightarrow> datetime \<Rightarrow> (exc + pyval) \<times> pydict \<times> collection" where
  "TelemetryDAO_insert c data now =
     (let data1 = (if \<not> has_key data ''timestamp''
                   then py_set data ''timestamp'' (PyStr (isoformat now)) else data)
      in insert_one c data1)"

text \<open>
  One \<^verbatim>\<open>TelemetryResponse(...)\<close> of the loop: the three \<^verbatim>\<open>pop\<close>s without a default raise
  \<^verbatim>\<open>KeyError\<close>, and a remaining key \<^verbatim>\<open>id\<close> clashes with the keyword argument of that name.
\<close>

definition opt_str_ok :: "validation \<Rightarrow> pyval \<Rightarrow> bool" where
  "opt_str_ok v x = (x = PyNone \<or> str_ok v x)"

definition telemetry_response :: "validation \<Rightarrow> pydict \<Rightarrow> exc + TelemetryResponse" where
  "telemetry_response v doc =
     (case py_get doc ''_id'' of
        None \<Rightarrow> Inl (KeyError ''_id'')
      | Some i \<Rightarrow>
          (let doc = py_pop doc ''_id'' in
           case py_get doc ''device_id'' of
             None \<Rightarrow> Inl (KeyError ''device_id'')
           | Some dv \<Rightarrow>
               (let doc = py_pop doc ''device_id'' in
                case py_get doc ''timestamp'' of
                  None \<Rightarrow> Inl (KeyError ''timestamp'')
                | Some ts \<Rightarrow>
                    (let doc = py_pop doc ''timestamp'';
                         nm = (case py_get doc ''device_name'' of None \<Rightarrow> PyNone | Some n \<Rightarrow> n);
                         doc = py_pop doc ''device_name'';
                         lc = (case py_get doc ''location'' of None \<Rightarrow> PyNone | Some l \<Rightarrow> l);
                         doc = py_pop doc ''location''
                     in if has_key doc ''id'' then Inl TypeError
                        else if int_ok v dv \<and> str_ok v ts \<and> opt_str_ok v nm \<and> opt_str_ok v lc
                        then Inr \<lparr>telemetry_id = i, telemetry_device_id = dv,
                                  telemetry_timestamp = ts, device_name = nm,
                                  telemetry_location = lc, extra = doc\<rparr>
                        else Inl PydanticValidationError))))"

definition TelemetryDAO_get_all ::
  "validation \<Rightarrow> collection \<Rightarrow> int option \<Rightarrow> string option \<Rightarrow> int
     \<Rightarrow> (exc + TelemetryResponse list) \<times> collection" where
  "TelemetryDAO_get_all v c dev_id dev_type limit =
     (case find_sorted c (build_query dev_id ''device_type'' dev_type) ''timestamp'' limit of
        (Inl e, c1) \<Rightarrow> (Inl e, c1)
      | (Inr cursor, c1) \<Rightarrow> (collect (telemetry_response v) cursor, c1))"

definition TelemetryDAO_delete_old_data ::
  "collection \<Rightarrow> int \<Rightarrow> datetime \<Rightarrow> (exc + int) \<times> collection" where
  "TelemetryDAO_delete_old_data c days now =
     (let cutoff_date = now in
      case replace_day cutoff_date (day cutoff_date - days) of
        Inl e \<Rightarrow> (Inl e, c)
      | Inr cutoff_date \<Rightarrow> delete_many_lt c ''timestamp'' (isoformat cutoff_date))"

subsection \<open>Query endpoints (monitoring/controllers)\<close>

text \<open>
  \<^verbatim>\<open>get_events\<close> and \<^verbatim>\<open>get_telemetry\<close>: \<^verbatim>\<open>limit\<close> is declared as
  \<^verbatim>\<open>Query(100, ge=1, le=1000)\<close>, so a request without a limit uses 100 and a request whose
  limit is outside the range is refused before the function body runs.
\<close>

definition checked_limit :: "int option \<Rightarrow> exc + int" where
  "checked_limit l =
     (case l of
        None \<Rightarrow> Inr 100
      | Some n \<Rightarrow> if 1 \<le> n \<and> n \<le> 1000 then Inr n else Inl RequestValidationError)"

definition get_events ::
  "validation \<Rightarrow> collection \<Rightarrow> int option \<Rightarrow> string option \<Rightarrow> int option
     \<Rightarrow> (exc + EventResponse list) \<times> collection" where
  "get_events v c dev_id ev_type limit =
     (case checked_limit limit of
        Inl e \<Rightarrow> (Inl e, c)
      | Inr n \<Rightarrow> EventsDAO_get_all v c dev_id ev_type n)"

definition get_telemetry ::
  "validation \<Rightarrow> collection \<Rightarrow> int option \<Rightarrow> string option \<Rightarrow> int option
     \<Rightarrow> (exc + TelemetryResponse list) \<times> collection" where
  "get_telemetry v c dev_id dev_type limit =
     (case checked_limit limit of
        Inl e \<Rightarrow> (Inl e, c)
      | Inr n \<Rightarrow> TelemetryDAO_get_all v c dev_id dev_type n)"

text \<open>
  An event collection with three records, the last of them more than two months older
  than the two others, and an empty one.
\<close>

definition event_log :: collection where
  "event_log =
     \<lparr>docs =
        [[(''device_id'', PyInt 1), (''event_type'', PyStr ''alert''),
          (''timestamp'', PyStr ''2024-01-10T08:00:00''), (''_id'', ObjectId 0)],
         [(''device_id'', PyInt 2), (''event_type'', PyStr ''deployed''),
          (''timestamp'', PyStr ''2024-01-12T09:30:00''), (''_id'', ObjectId 1)],
         [(''device_id'', PyInt 1), (''event_type'', PyStr ''deployed''),
          (''timestamp'', PyStr ''2023-11-02T17:45:10''), (''_id'', ObjectId 2)]],
      next_oid = 3, mongo_faults = []\<rparr>"

definition empty_collection :: collection where
  "empty_collection = \<lparr>docs = [], next_oid = 0, mongo_faults = []\<rparr>"

text \<open>A telemetry collection with one reading of each of two devices.\<close>

definition telemetry_log :: collection where
  "telemetry_log =
     \<lparr>docs =
        [[(''device_id'', PyInt 1), (''device_name'', PyStr ''probe''),
          (''timestamp'', PyStr ''2024-01-10T08:00:00''), (''temperature'', PyInt 21),
          (''device_type'', PyStr ''iot_sensor''), (''_id'', ObjectId 0)],
         [(''device_id'', PyInt 2), (''device_name'', PyStr ''gateway''),
          (''timestamp'', PyStr ''2024-01-12T09:30:00''), (''temperature'', PyInt 35),
          (''device_type'', PyStr ''other''), (''_id'', ObjectId 1)]],
      next_oid = 2, mongo_faults = []\<rparr>"

section \<open>Event consumer (monitoring/services/rabbitmq_consumer.py)\<close>

text \<open>
  What a \<^verbatim>\<open>requests.get\<close> of the device-type endpoint can do: raise (a timeout, a refused
  connection, any exception), or return a response with a status code and a body, where
  \<^verbatim>\<open>None\<close> stands for a body that \<^verbatim>\<open>response.json()\<close> cannot decode.
\<close>

datatype http_outcome = RequestRaises exc | Response int "pyval option"

text \<open>What the consumer does that is visible outside it, in the order in which it does it.\<close>

datatype consumer_action =
    HttpGet pyval
  | InsertTelemetry pydict
  | InsertEvent pydict
  | Broadcast string pydict
  | Ack nat

text \<open>
  The consumer with its surroundings: the module's \<^verbatim>\<open>_device_type_cache\<close>, the registry
  that answers the lookups, the two collections, whether \<^verbatim>\<open>set_socketio_callback\<close> has
  installed the callback (the one of \<^verbatim>\<open>main.py\<close>, which calls \<^verbatim>\<open>queue_broadcast\<close>), the
  broadcast service, the log and the record of actions.
\<close>

record consumer =
  device_type_cache :: "(pyval \<times> pyval) list"
  registry :: "pyval \<Rightarrow> http_outcome"
  telemetry_collection :: collection
  events_collection :: collection
  socketio_callback :: bool
  socketio :: SocketIOService
  consumer_log :: "log_entry list"
  actions :: "consumer_action list"

definition logged :: "consumer \<Rightarrow> log_level \<Rightarrow> string \<Rightarrow> consumer" where
  "logged w lv msg = w\<lparr>consumer_log := consumer_log w @ [(lv, msg)]\<rparr>"

definition acted :: "consumer \<Rightarrow> consumer_action \<Rightarrow> consumer" where
  "acted w a = w\<lparr>actions := actions w @ [a]\<rparr>"

text \<open>
  Dictionary keys: lists and dictionaries are unhashable, so \<^verbatim>\<open>x in d\<close> raises
  \<^verbatim>\<open>TypeError\<close> for them; \<^verbatim>\<open>True\<close> and \<^verbatim>\<open>False\<close> are the keys 1 and 0.
\<close>

fun hashable :: "pyval \<Rightarrow> bool" where
  "hashable (PyList xs) = False"
| "hashable (PyDict kvs) = False"
| "hashable v = True"

fun py_key :: "pyval \<Rightarrow> pyval" where
  "py_key (PyBool b) = PyInt (if b then 1 else 0)"
| "py_key v = v"

definition as_dict :: "pyval \<Rightarrow> pydict option" where
  "as_dict v = (case v of PyDict kvs \<Rightarrow> Some kvs | _ \<Rightarrow> None)"

text \<open>
  \<^verbatim>\<open>_get_device_type(device_id)\<close>: the membership test on the cache is outside the \<^verbatim>\<open>try\<close>;
  inside it, a response with status 200 gives the \<^verbatim>\<open>type\<close> of its body (\<^verbatim>\<open>'other'\<close> when
  the body has none) and stores it in the cache, any other status and any exception give
  \<^verbatim>\<open>'other'\<close> and store nothing.
\<close>

definition get_device_type :: "consumer \<Rightarrow> pyval \<Rightarrow> (exc + pyval) \<times> consumer" where
  "get_device_type w dev =
     (if \<not> hashable dev then (Inl TypeError, w)
      else
        case map_of (device_type_cache w) (py_key dev) of
          Some t \<Rightarrow> (Inr t, w)
        | None \<Rightarrow>
            (let w1 = acted w (HttpGet dev) in
             case registry w1 dev of
               RequestRaises e \<Rightarrow>
                 (Inr (PyStr ''other''), logged w1 WARNING ''Error fetching device type'')
             | Response status_code body \<Rightarrow>
                 if status_code = 200 then
                   (case body of
                      None \<Rightarrow>
                        (Inr (PyStr ''other''), logged w1 WARNING ''Error fetching device type'')
                    | Some b \<Rightarrow>
                        (case as_dict b of
                           None \<Rightarrow>
                             (Inr (PyStr ''other''),
                              logged w1 WARNING ''Error fetching device type'')
                         | Some device_data \<Rightarrow>
                             (let device_type =
                                    (case py_get device_data ''type'' of
                                       None \<Rightarrow> PyStr ''other'' | Some t \<Rightarrow> t)
                              in (Inr device_type,
                                  logged
                                    (w1\<lparr>device_type_cache :=
                                          AList.update (py_key dev) device_type
                                            (device_type_cache w1)\<rparr>)
                                    INFO ''Fetched device type''))))
                 else (Inr (PyStr ''other''),
                       logged w1 WARNING ''Failed to fetch device type'')))"

text \<open>The first steps of both handlers on a decoded payload.\<close>

definition default_timestamp :: "pydict \<Rightarrow> datetime \<Rightarrow> pydict" where
  "default_timestamp payload now =
     py_set payload ''timestamp''
       (case py_get payload ''timestamp'' of None \<Rightarrow> PyStr (isoformat now) | Some t \<Rightarrow> t)"

definition flatten_data :: "pydict \<Rightarrow> pydict" where
  "flatten_data payload =
     (case py_get payload ''data'' of
        None \<Rightarrow> payload
      | Some d \<Rightarrow>
          (case as_dict d of
             None \<Rightarrow> payload
           | Some data_field \<Rightarrow> py_update (py_pop payload ''data'') data_field))"

text \<open>
  The broadcast at the end of both handlers: when the callback is set, the payload without
  its \<^verbatim>\<open>_id\<close> goes to \<^verbatim>\<open>queue_broadcast\<close>.
\<close>

definition emit :: "consumer \<Rightarrow> string \<Rightarrow> pydict \<Rightarrow> consumer" where
  "emit w event payload =
     (if socketio_callback w then
        (let broadcast_payload = filter (\<lambda>kv. fst kv \<noteq> ''_id'') payload
         in acted (w\<lparr>socketio := queue_broadcast (socketio w) event broadcast_payload\<rparr>)
              (Broadcast event broadcast_payload))
      else w)"

text \<open>
  The enrichment step of \<^verbatim>\<open>_on_telemetry\<close>: a truthy \<^verbatim>\<open>device_id\<close> is looked up and the
  result stored under \<^verbatim>\<open>device_type\<close>.
\<close>

definition device_id_of :: "pydict \<Rightarrow> pyval" where
  "device_id_of payload = (case py_get payload ''device_id'' of None \<Rightarrow> PyNone | Some d \<Rightarrow> d)"

definition enrich :: "consumer \<Rightarrow> pydict \<Rightarrow> (exc + pydict) \<times> consumer" where
  "enrich w payload =
     (let dev = device_id_of payload in
      if truthy dev then
        (case get_device_type w dev of
           (Inl e, w1) \<Rightarrow> (Inl e, w1)
         | (Inr device_type, w1) \<Rightarrow> (Inr (py_set payload ''device_type'' device_type), w1))
      else (Inr payload, w))"

text \<open>
  The \<^verbatim>\<open>try\<close> block of \<^verbatim>\<open>_on_telemetry\<close>. The result says which exception left the block,
  if any. A body that does not decode raises in \<^verbatim>\<open>json.loads\<close>; a decoded value that is
  not a dictionary raises at \<^verbatim>\<open>payload.get\<close>.
\<close>

definition telemetry_try :: "consumer \<Rightarrow> pyval option \<Rightarrow> datetime \<Rightarrow> exc option \<times> consumer" where
  "telemetry_try w body now =
     (case body of
        None \<Rightarrow> (Some JSONDecodeError, w)
      | Some decoded \<Rightarrow>
          (case as_dict decoded of
             None \<Rightarrow> (Some AttributeError, w)
           | Some payload \<Rightarrow>
               (case enrich w (flatten_data (default_timestamp payload now)) of
                  (Inl e, w1) \<Rightarrow> (Some e, w1)
                | (Inr payload, w1) \<Rightarrow>
                    (let w2 = acted w1 (InsertTelemetry payload) in
                     case TelemetryDAO_insert (telemetry_collection w2) payload now of
                       (Inl e, payload, c) \<Rightarrow> (Some e, w2\<lparr>telemetry_collection := c\<rparr>)
                     | (Inr oid, payload, c) \<Rightarrow>
                         (None,
                          logged (emit (w2\<lparr>telemetry_collection := c\<rparr>) ''telemetry'' payload)
                            INFO ''Telemetry stored'')))))"

text \<open>
  \<^verbatim>\<open>_on_telemetry(channel, method, properties, body)\<close>: the \<^verbatim>\<open>except\<close> clause logs any
  exception of the block, and the \<^verbatim>\<open>finally\<close> clause acknowledges the delivery tag.
\<close>

definition on_telemetry :: "consumer \<Rightarrow> nat \<Rightarrow> pyval option \<Rightarrow> datetime \<Rightarrow> consumer" where
  "on_telemetry w delivery_tag body now =
     (case telemetry_try w body now of
        (None, w1) \<Rightarrow> acted w1 (Ack delivery_tag)
      | (Some e, w1) \<Rightarrow>
          acted (logged w1 ERROR ''Telemetry consumer error'') (Ack delivery_tag))"

text \<open>\<^verbatim>\<open>_on_device_event\<close>: the same without flattening and enrichment, on the events store.\<close>

definition device_event_try ::
  "consumer \<Rightarrow> pyval option \<Rightarrow> datetime \<Rightarrow> exc option \<times> consumer" where
  "device_event_try w body now =
     (case body of
        None \<Rightarrow> (Some JSONDecodeError, w)
      | Some decoded \<Rightarrow>
          (case as_dict decoded of
             None \<Rightarrow> (Some AttributeError, w)
           | Some payload \<Rightarrow>
               (let payload = default_timestamp payload now;
                    w2 = acted w (InsertEvent payload)
                in case EventsDAO_insert (events_collection w2) payload now of
                     (Inl e, payload, c) \<Rightarrow> (Some e, w2\<lparr>events_collection := c\<rparr>)
                   | (Inr oid, payload, c) \<Rightarrow>
                       (None,
                        logged (emit (w2\<lparr>events_collection := c\<rparr>) ''device_event'' payload)
                          INFO ''Device event stored''))))"

definition on_device_event :: "consumer \<Rightarrow> nat \<Rightarrow> pyval option \<Rightarrow> datetime \<Rightarrow> consumer" where
  "on_device_event w delivery_tag body now =
     (case device_event_try w body now of
        (None, w1) \<Rightarrow> acted w1 (Ack delivery_tag)
      | (Some e, w1) \<Rightarrow>
          acted (logged w1 ERROR ''Device event consumer error'') (Ack delivery_tag))"

text \<open>The actions that a handler added to the record.\<close>

definition new_actions :: "consumer \<Rightarrow> consumer \<Rightarrow> consumer_action list" where
  "new_actions w w' = drop (length (actions w)) (actions w')"

definition is_ack :: "consumer_action \<Rightarrow> bool" where
  "is_ack a = (case a of Ack t \<Rightarrow> True | _ \<Rightarrow> False)"

definition is_insert :: "consumer_action \<Rightarrow> bool" where
  "is_insert a = (case a of InsertTelemetry p \<Rightarrow> True | InsertEvent p \<Rightarrow> True | _ \<Rightarrow> False)"

text \<open>A lookup that fails: an exception, a status other than 200, or a body that is not a
  decodable JSON object.\<close>

definition lookup_fails :: "http_outcome \<Rightarrow> bool" where
  "lookup_fails outcome =
     (case outcome of
        RequestRaises e \<Rightarrow> True
      | Response status_code body \<Rightarrow>
          status_code \<noteq> 200 \<or> (case body of None \<Rightarrow> True | Some b \<Rightarrow> as_dict b = None))"

text \<open>
  A monitoring service with empty stores and cache, the callback installed, and a registry
  that knows device 1 as a sensor, times out on device 9 and answers 404 for any other id.
\<close>

definition station :: consumer where
  "station =
     \<lparr>device_type_cache = [],
      registry = (\<lambda>d. if d = PyInt 1 then Response 200 (Some (PyDict [(''type'', PyStr ''iot_sensor'')]))
                      else if d = PyInt 9 then RequestRaises RequestException
                      else Response 404 (Some (PyDict [(''detail'', PyStr ''Device not found'')]))),
      telemetry_collection = empty_collection,
      events_collection = empty_collection,
      socketio_callback = True,
      socketio = SocketIOService_init,
      consumer_log = [],
      actions = []\<rparr>"

text \<open>A telemetry message of a device that the registry does not know.\<close>

definition unknown_reading :: pydict where
  "unknown_reading = [(''device_id'', PyInt 42), (''data'', PyDict [(''temperature'', PyInt 21)])]"

section \<open>Properties\<close>

subsection \<open>Lifecycle\<close>

lemma DeviceStatus_closed: "s \<in> {IN_STOCK, RESERVED, DEPLOYED, MAINTENANCE, RETIRED}"
  by (cases s) simp_all

text \<open>
  C1. A transition whose pair (current status, target status) is not in the table of
  section 4.1 fails with \<^verbatim>\<open>InvalidTransition\<close> and leaves the whole state, and so the
  device's status, unchanged; RETIRED has no outgoing transition, so this covers every
  transition from RETIRED; and the status of a device is always one of the five values.
\<close>

theorem transition_outside_table_rejected:
  "status d \<in> {IN_STOCK, RESERVED, DEPLOYED, MAINTENANCE, RETIRED} \<and>
   (devices s i = Some d \<longrightarrow> (\<not> allowed (status d) t \<or> status d = RETIRED) \<longrightarrow>
      transition s i t loc nts now = (Inl InvalidTransition, s) \<and>
      map_option status (devices (snd (transition s i t loc nts now)) i) = Some (status d))"
  by (cases "status d") (auto simp: transition_def)

theorem transition_outside_table_rejected_witness:
  "devices fleet 1 = Some sn001 \<and> \<not> allowed (status sn001) RESERVED \<and>
   transition fleet 1 RESERVED None None ''2024-02-01T08:00:00'' = (Inl InvalidTransition, fleet) \<and>
   map_option status
     (devices (snd (transition fleet 1 RESERVED None None ''2024-02-01T08:00:00'')) 1) =
     Some DEPLOYED"
  using transition_outside_table_rejected
          [of sn001 fleet 1 RESERVED None None "''2024-02-01T08:00:00''"]
  by (simp add: fleet_def sn001_def)

subsection \<open>Broadcast fan-out\<close>

lemma queue_broadcast_unbounded_step:
  "maxsize (broadcast_queue svc) \<le> 0 \<Longrightarrow>
   broadcast_queue (queue_broadcast svc e d) =
     (broadcast_queue svc)\<lparr>items := items (broadcast_queue svc) @ [(e, d)]\<rparr>"
  by (simp add: queue_broadcast_def put_nowait_def full_def Let_def)

lemma queue_all_unbounded:
  "maxsize (broadcast_queue svc) \<le> 0 \<Longrightarrow>
   broadcast_queue (queue_all svc evs) =
     (broadcast_queue svc)\<lparr>items := items (broadcast_queue svc) @ evs\<rparr>"
proof (induction evs arbitrary: svc)
  case Nil
  then show ?case by (simp add: queue_all_def)
next
  case (Cons ev evs)
  have step: "broadcast_queue (queue_broadcast svc (fst ev) (snd ev)) =
      (broadcast_queue svc)\<lparr>items := items (broadcast_queue svc) @ [ev]\<rparr>"
    using queue_broadcast_unbounded_step [OF Cons.prems, of "fst ev" "snd ev"] by simp
  have "queue_all svc (ev # evs) = queue_all (queue_broadcast svc (fst ev) (snd ev)) evs"
    by (simp add: queue_all_def)
  moreover have "maxsize (broadcast_queue (queue_broadcast svc (fst ev) (snd ev))) \<le> 0"
    using Cons.prems by (simp add: step)
  ultimately show ?case
    using Cons.IH [of "queue_broadcast svc (fst ev) (snd ev)"] by (simp add: step)
qed

text \<open>
  C2, as stated, fails: the queue that \<^verbatim>\<open>__init__\<close> builds has \<^verbatim>\<open>maxsize\<close> 0, which
  \<^verbatim>\<open>asyncio\<close> reads as no bound. After three pushes it holds three events, it is still not
  full, and nothing was dropped or logged as an error.
\<close>

theorem queue_broadcast_bounded_counterexample:
  "maxsize (broadcast_queue SocketIOService_init) = 0 \<and>
   items (broadcast_queue (queue_all SocketIOService_init
      [(''telemetry'', [(''device_id'', PyInt 1)]),
       (''telemetry'', [(''device_id'', PyInt 2)]),
       (''device_event'', [(''device_id'', PyInt 1)])])) =
      [(''telemetry'', [(''device_id'', PyInt 1)]),
       (''telemetry'', [(''device_id'', PyInt 2)]),
       (''device_event'', [(''device_id'', PyInt 1)])] \<and>
   \<not> full (broadcast_queue (queue_all SocketIOService_init
      [(''telemetry'', [(''device_id'', PyInt 1)]),
       (''telemetry'', [(''device_id'', PyInt 2)]),
       (''device_event'', [(''device_id'', PyInt 1)])])) \<and>
   (ERROR, ''Error queueing broadcast'') \<notin> set (service_log (queue_all SocketIOService_init
      [(''telemetry'', [(''device_id'', PyInt 1)]),
       (''telemetry'', [(''device_id'', PyInt 2)]),
       (''device_event'', [(''device_id'', PyInt 1)])]))"
  by (simp add: queue_all_def queue_broadcast_def put_nowait_def full_def Let_def
        SocketIOService_init_def Queue_def)

text \<open>
  C2, amended. The queue of the service is created without a capacity bound, so it is never
  full: \<^verbatim>\<open>queue_broadcast\<close> returns after one non-blocking push, and every event of every
  run of calls is in the queue afterwards, in order. Nothing is dropped and the queue grows
  with the number of calls.
\<close>

theorem queue_broadcast_never_full:
  "maxsize (broadcast_queue SocketIOService_init) = 0 \<and>
   \<not> full (broadcast_queue (queue_all SocketIOService_init evs)) \<and>
   items (broadcast_queue (queue_all SocketIOService_init evs)) = evs \<and>
   length (items (broadcast_queue (queue_all SocketIOService_init (evs @ [ev])))) =
     Suc (length (items (broadcast_queue (queue_all SocketIOService_init evs))))"
proof -
  have m: "maxsize (broadcast_queue SocketIOService_init) \<le> 0"
    by (simp add: SocketIOService_init_def Queue_def)
  have q: "broadcast_queue (queue_all SocketIOService_init xs) =
      (broadcast_queue SocketIOService_init)\<lparr>items := xs\<rparr>" for xs
    using queue_all_unbounded [OF m, of xs] by (simp add: SocketIOService_init_def Queue_def)
  show ?thesis
    by (simp add: q full_def) (simp add: SocketIOService_init_def Queue_def)
qed

subsection \<open>Read cache\<close>

lemma is_redis_error_RedisError [simp]: "is_redis_error (RedisError k)"
  by (simp add: is_redis_error_def)

















subsection \<open>Event publisher\<close>

lemma request_effect:
  assumes "request b op = (res, b')"
  shows "broker_ops b' = broker_ops b @ [op]" and "ran b b' [op] (res = Inr ())"
    and "broker_faults b = [] \<Longrightarrow> res = Inr () \<and> broker_faults b' = []"
    and "list_all amqp_fault (broker_faults b) \<Longrightarrow> list_all amqp_fault (broker_faults b')"
    and "list_all amqp_fault (broker_faults b) \<Longrightarrow> res = Inl e \<Longrightarrow>
           e = AMQPConnectionError \<or> e = AMQPChannelError"
  using assms
  by (auto simp: request_def Let_def amqp_fault_def ran_def answered_def
           split: list.splits option.splits)

lemma ran_nothing: "ran b b [] True"
  by (simp add: ran_def answered_def)

lemma ran_then:
  assumes "ran b b1 xs True" and "ran b1 b2 ys ok"
  shows "ran b b2 (xs @ ys) ok"
  using assms by (auto simp: ran_def answered_def take_add add.commute)

lemma ran_new_ops:
  "ran (rabbit p) (rabbit p') ops ok \<Longrightarrow> ran (rabbit p) (rabbit p') (new_ops p p') ok"
  by (simp add: ran_def new_ops_def)

lemma pub_request_effect:
  assumes "pub_request p op = (res, p')"
  shows "broker_ops (rabbit p') = broker_ops (rabbit p) @ [op]"
    and "ran (rabbit p) (rabbit p') [op] (res = Inr ())"
    and "connection_handle p' = connection_handle p"
    and "channel_handle p' = channel_handle p"
    and "broker_faults (rabbit p) = [] \<Longrightarrow> res = Inr () \<and> broker_faults (rabbit p') = []"
    and "list_all amqp_fault (broker_faults (rabbit p)) \<Longrightarrow>
           list_all amqp_fault (broker_faults (rabbit p'))"
    and "list_all amqp_fault (broker_faults (rabbit p)) \<Longrightarrow> res = Inl e \<Longrightarrow>
           e = AMQPConnectionError \<or> e = AMQPChannelError"
proof -
  obtain b where b: "request (rabbit p) op = (res, b)" and p': "p' = p\<lparr>rabbit := b\<rparr>"
    using assms by (auto simp: pub_request_def split: prod.splits)
  show "broker_ops (rabbit p') = broker_ops (rabbit p) @ [op]"
    using request_effect(1) [OF b] p' by simp
  show "ran (rabbit p) (rabbit p') [op] (res = Inr ())"
    using request_effect(2) [OF b] p' by simp
  show "connection_handle p' = connection_handle p" using p' by simp
  show "channel_handle p' = channel_handle p" using p' by simp
  show "broker_faults (rabbit p) = [] \<Longrightarrow> res = Inr () \<and> broker_faults (rabbit p') = []"
    using request_effect(3) [OF b] p' by simp
  show "list_all amqp_fault (broker_faults (rabbit p)) \<Longrightarrow>
           list_all amqp_fault (broker_faults (rabbit p'))"
    using request_effect(4) [OF b] p' by simp
  show "list_all amqp_fault (broker_faults (rabbit p)) \<Longrightarrow> res = Inl e \<Longrightarrow>
           e = AMQPConnectionError \<or> e = AMQPChannelError"
    using request_effect(5) [OF b] p' by simp
qed

lemma connection_raised_effect:
  "connection_raised e p = (res, p') \<Longrightarrow>
     res = Inl e \<and> rabbit p' = rabbit p \<and> connection_handle p' = connection_handle p \<and>
     channel_handle p' = channel_handle p"
  by (auto simp: connection_raised_def pub_logged_def split: if_splits)

lemma connection_open: "connection_handle p = Some False \<Longrightarrow> connection p = (Inr (), p)"
  by (simp add: connection_def)

lemma connection_effect:
  assumes conn: "connection p = (res, p')" and h: "connection_handle p \<noteq> Some False"
  shows "\<exists>ops. broker_ops (rabbit p') = broker_ops (rabbit p) @ ops \<and> \<not> list_ex is_publish ops \<and>
           (res = Inr () \<longrightarrow> ops = [Connect, OpenChannel, ExchangeDeclare ''device_events''])"
    and "ran (rabbit p) (rabbit p') (new_ops p p') (res = Inr ())"
    and "broker_faults (rabbit p) = [] \<Longrightarrow> res = Inr () \<and> broker_faults (rabbit p') = []"
    and "list_all amqp_fault (broker_faults (rabbit p)) \<Longrightarrow>
           list_all amqp_fault (broker_faults (rabbit p'))"
    and "list_all amqp_fault (broker_faults (rabbit p)) \<Longrightarrow> res = Inl e \<Longrightarrow>
           e = AMQPConnectionError \<or> e = AMQPChannelError"
    and "res = Inr () \<Longrightarrow> connection_handle p' = Some False \<and> channel_handle p' = Some False"
    and "take 1 (new_ops p p') = [Connect]"
proof -
  have hh: "connection_handle p = None \<or> connection_handle p = Some True"
    using h by (cases "connection_handle p") auto
  obtain r1 p1 where r1: "pub_request p Connect = (r1, p1)" by (cases "pub_request p Connect")
  note e1 = pub_request_effect [OF r1]
  obtain r2 p2 where r2: "pub_request (p1\<lparr>connection_handle := Some False\<rparr>) OpenChannel = (r2, p2)"
    by (cases "pub_request (p1\<lparr>connection_handle := Some False\<rparr>) OpenChannel")
  note e2 = pub_request_effect [OF r2]
  obtain r3 p3 where r3: "pub_request (p2\<lparr>channel_handle := Some False\<rparr>)
                            (ExchangeDeclare ''device_events'') = (r3, p3)"
    by (cases "pub_request (p2\<lparr>channel_handle := Some False\<rparr>) (ExchangeDeclare ''device_events'')")
  note e3 = pub_request_effect [OF r3]
  consider (a) x where "r1 = Inl x" "connection_raised x p1 = (res, p')"
    | (b) x where "r1 = Inr ()" "r2 = Inl x" "connection_raised x p2 = (res, p')"
    | (c) x where "r1 = Inr ()" "r2 = Inr ()" "r3 = Inl x" "connection_raised x p3 = (res, p')"
    | (d) "r1 = Inr ()" "r2 = Inr ()" "r3 = Inr ()" "res = Inr ()"
          "p' = pub_logged p3 INFO ''RabbitMQ connected''"
  proof (cases r1)
    case (Inl x)
    have "connection p = connection_raised x p1"
      using hh r1 Inl by (auto simp: connection_def)
    then show ?thesis using conn a Inl by simp
  next
    case r1': (Inr u)
    show ?thesis
    proof (cases r2)
      case (Inl x)
      have "connection p = connection_raised x p2"
        using hh r1 r1' r2 Inl by (auto simp: connection_def)
      then show ?thesis using conn r1' b Inl by simp
    next
      case r2': (Inr u2)
      show ?thesis
      proof (cases r3)
        case (Inl x)
        have "connection p = connection_raised x p3"
          using hh r1 r1' r2 r2' r3 Inl by (auto simp: connection_def)
        then show ?thesis using conn r1' r2' c Inl by simp
      next
        case (Inr u3)
        have "connection p = (Inr (), pub_logged p3 INFO ''RabbitMQ connected'')"
          using hh r1 r1' r2 r2' r3 Inr by (auto simp: connection_def)
        then show ?thesis using conn r1' r2' d Inr by simp
      qed
    qed
  qed
  note cases = this
  show "\<exists>ops. broker_ops (rabbit p') = broker_ops (rabbit p) @ ops \<and> \<not> list_ex is_publish ops \<and>
           (res = Inr () \<longrightarrow> ops = [Connect, OpenChannel, ExchangeDeclare ''device_events''])"
  proof (cases rule: cases)
    case a
    then show ?thesis using e1(1) connection_raised_effect [OF a(2)]
      by (intro exI [of _ "[Connect]"]) (simp add: is_publish_def)
  next
    case b
    then show ?thesis using e1(1) e2(1) connection_raised_effect [OF b(3)]
      by (intro exI [of _ "[Connect, OpenChannel]"]) (simp add: is_publish_def)
  next
    case c
    then show ?thesis using e1(1) e2(1) e3(1) connection_raised_effect [OF c(4)]
      by (intro exI [of _ "[Connect, OpenChannel, ExchangeDeclare ''device_events'']"])
         (simp add: is_publish_def)
  next
    case d
    then show ?thesis using e1(1) e2(1) e3(1)
      by (intro exI [of _ "[Connect, OpenChannel, ExchangeDeclare ''device_events'']"])
         (simp add: is_publish_def pub_logged_def)
  qed
  have s1: "ran (rabbit p) (rabbit p1) [Connect] (r1 = Inr ())" using e1(2) .
  have s2: "r1 = Inr () \<Longrightarrow> ran (rabbit p) (rabbit p2) [Connect, OpenChannel] (r2 = Inr ())"
    using ran_then [of "rabbit p" "rabbit p1" "[Connect]" "rabbit p2" "[OpenChannel]" "r2 = Inr ()"]
      e1(2) e2(2) by simp
  have s3: "r1 = Inr () \<Longrightarrow> r2 = Inr () \<Longrightarrow>
      ran (rabbit p) (rabbit p3) [Connect, OpenChannel, ExchangeDeclare ''device_events'']
        (r3 = Inr ())"
    using ran_then [of "rabbit p" "rabbit p2" "[Connect, OpenChannel]" "rabbit p3"
        "[ExchangeDeclare ''device_events'']" "r3 = Inr ()"] s2 e3(2) by simp
  show "ran (rabbit p) (rabbit p') (new_ops p p') (res = Inr ())"
  proof (cases rule: cases)
    case a
    have "ran (rabbit p) (rabbit p') [Connect] (res = Inr ())"
      using s1 a(1) connection_raised_effect [OF a(2)] by simp
    then show ?thesis by (rule ran_new_ops)
  next
    case b
    have "ran (rabbit p) (rabbit p') [Connect, OpenChannel] (res = Inr ())"
      using s2 b(1,2) connection_raised_effect [OF b(3)] by simp
    then show ?thesis by (rule ran_new_ops)
  next
    case c
    have "ran (rabbit p) (rabbit p') [Connect, OpenChannel, ExchangeDeclare ''device_events'']
        (res = Inr ())"
      using s3 c(1,2,3) connection_raised_effect [OF c(4)] by simp
    then show ?thesis by (rule ran_new_ops)
  next
    case d
    have "ran (rabbit p) (rabbit p') [Connect, OpenChannel, ExchangeDeclare ''device_events'']
        (res = Inr ())"
      using s3 d by (simp add: pub_logged_def)
    then show ?thesis by (rule ran_new_ops)
  qed
  show "broker_faults (rabbit p) = [] \<Longrightarrow> res = Inr () \<and> broker_faults (rabbit p') = []"
  proof -
    assume z: "broker_faults (rabbit p) = []"
    have z1: "r1 = Inr () \<and> broker_faults (rabbit p1) = []" using e1(5) z by simp
    have z2: "r2 = Inr () \<and> broker_faults (rabbit p2) = []" using e2(5) z1 by simp
    have z3: "r3 = Inr () \<and> broker_faults (rabbit p3) = []" using e3(5) z2 by simp
    show ?thesis
    proof (cases rule: cases)
      case a then show ?thesis using z1 by simp
    next
      case b then show ?thesis using z2 by simp
    next
      case c then show ?thesis using z3 by simp
    next
      case d then show ?thesis using z3 by (simp add: pub_logged_def)
    qed
  qed
  have q1: "list_all amqp_fault (broker_faults (rabbit p)) \<Longrightarrow>
      list_all amqp_fault (broker_faults (rabbit p1)) \<and>
      list_all amqp_fault (broker_faults (rabbit p2)) \<and>
      list_all amqp_fault (broker_faults (rabbit p3))"
    using e1(6) e2(6) e3(6) by simp
  show "list_all amqp_fault (broker_faults (rabbit p)) \<Longrightarrow>
           list_all amqp_fault (broker_faults (rabbit p'))"
  proof -
    assume z: "list_all amqp_fault (broker_faults (rabbit p))"
    show ?thesis
    proof (cases rule: cases)
      case a then show ?thesis using q1 [OF z] connection_raised_effect [OF a(2)] by simp
    next
      case b then show ?thesis using q1 [OF z] connection_raised_effect [OF b(3)] by simp
    next
      case c then show ?thesis using q1 [OF z] connection_raised_effect [OF c(4)] by simp
    next
      case d then show ?thesis using q1 [OF z] by (simp add: pub_logged_def)
    qed
  qed
  show "list_all amqp_fault (broker_faults (rabbit p)) \<Longrightarrow> res = Inl e \<Longrightarrow>
           e = AMQPConnectionError \<or> e = AMQPChannelError"
  proof -
    assume z: "list_all amqp_fault (broker_faults (rabbit p))" and r: "res = Inl e"
    show ?thesis
    proof (cases rule: cases)
      case a then show ?thesis
        using e1(7) [OF z, of x] connection_raised_effect [OF a(2)] r by simp
    next
      case b then show ?thesis
        using e2(7) [of x] q1 [OF z] connection_raised_effect [OF b(3)] r by simp
    next
      case c then show ?thesis
        using e3(7) [of x] q1 [OF z] connection_raised_effect [OF c(4)] r by simp
    next
      case d then show ?thesis using r by simp
    qed
  qed
  show "res = Inr () \<Longrightarrow> connection_handle p' = Some False \<and> channel_handle p' = Some False"
  proof -
    assume r: "res = Inr ()"
    show ?thesis
    proof (cases rule: cases)
      case a then show ?thesis using connection_raised_effect [OF a(2)] r by simp
    next
      case b then show ?thesis using connection_raised_effect [OF b(3)] r by simp
    next
      case c then show ?thesis using connection_raised_effect [OF c(4)] r by simp
    next
      case d then show ?thesis using e2(3) e3(3) e3(4) by (simp add: pub_logged_def)
    qed
  qed
  show "take 1 (new_ops p p') = [Connect]"
  proof (cases rule: cases)
    case a then show ?thesis
      using e1(1) connection_raised_effect [OF a(2)] by (simp add: new_ops_def)
  next
    case b then show ?thesis
      using e1(1) e2(1) connection_raised_effect [OF b(3)] by (simp add: new_ops_def)
  next
    case c then show ?thesis
      using e1(1) e2(1) e3(1) connection_raised_effect [OF c(4)] by (simp add: new_ops_def)
  next
    case d then show ?thesis
      using e1(1) e2(1) e3(1) by (simp add: new_ops_def pub_logged_def)
  qed
qed

lemma connection_any:
  assumes conn: "connection p = (res, p')"
  shows "\<exists>ops. broker_ops (rabbit p') = broker_ops (rabbit p) @ ops \<and> \<not> list_ex is_publish ops"
    and "ran (rabbit p) (rabbit p') (new_ops p p') (res = Inr ())"
    and "broker_faults (rabbit p) = [] \<Longrightarrow> res = Inr () \<and> broker_faults (rabbit p') = []"
    and "list_all amqp_fault (broker_faults (rabbit p)) \<Longrightarrow>
           list_all amqp_fault (broker_faults (rabbit p'))"
    and "list_all amqp_fault (broker_faults (rabbit p)) \<Longrightarrow> res = Inl e \<Longrightarrow>
           e = AMQPConnectionError \<or> e = AMQPChannelError"
proof -
  show "\<exists>ops. broker_ops (rabbit p') = broker_ops (rabbit p) @ ops \<and> \<not> list_ex is_publish ops"
  proof (cases "connection_handle p = Some False")
    case True
    then show ?thesis using conn connection_open [OF True] by (intro exI [of _ "[]"]) simp
  next
    case False
    then show ?thesis using connection_effect(1) [OF conn False] by blast
  qed
  show "ran (rabbit p) (rabbit p') (new_ops p p') (res = Inr ())"
  proof (cases "connection_handle p = Some False")
    case True
    then show ?thesis
      using conn connection_open [OF True] ran_new_ops [OF ran_nothing [of "rabbit p"]]
      by simp
  next
    case False
    then show ?thesis using connection_effect(2) [OF conn False] by simp
  qed
  show "broker_faults (rabbit p) = [] \<Longrightarrow> res = Inr () \<and> broker_faults (rabbit p') = []"
  proof (cases "connection_handle p = Some False")
    case True
    assume "broker_faults (rabbit p) = []"
    then show ?thesis using conn connection_open [OF True] by simp
  next
    case False
    assume "broker_faults (rabbit p) = []"
    then show ?thesis using connection_effect(3) [OF conn False] by blast
  qed
  show "list_all amqp_fault (broker_faults (rabbit p)) \<Longrightarrow>
           list_all amqp_fault (broker_faults (rabbit p'))"
  proof (cases "connection_handle p = Some False")
    case True
    assume "list_all amqp_fault (broker_faults (rabbit p))"
    then show ?thesis using conn connection_open [OF True] by simp
  next
    case False
    assume "list_all amqp_fault (broker_faults (rabbit p))"
    then show ?thesis using connection_effect(4) [OF conn False] by blast
  qed
  show "list_all amqp_fault (broker_faults (rabbit p)) \<Longrightarrow> res = Inl e \<Longrightarrow>
           e = AMQPConnectionError \<or> e = AMQPChannelError"
  proof (cases "connection_handle p = Some False")
    case True
    assume "list_all amqp_fault (broker_faults (rabbit p))" "res = Inl e"
    then show ?thesis using conn connection_open [OF True] by simp
  next
    case False
    assume "list_all amqp_fault (broker_faults (rabbit p))" "res = Inl e"
    then show ?thesis using connection_effect(5) [OF conn False] by blast
  qed
qed

lemma channel_open: "channel_handle p = Some False \<Longrightarrow> channel p = (Inr (), p)"
  by (simp add: channel_def)

lemma channel_cases:
  assumes ch: "channel p = (res, p')" and h: "channel_handle p \<noteq> Some False"
  obtains (conn_failed) x where "connection p = (Inl x, p')" "res = Inl x"
  | (chan_failed) p1 x where "connection p = (Inr (), p1)" "pub_request p1 OpenChannel = (Inl x, p')"
        "res = Inl x"
  | (opened) p1 p2 where "connection p = (Inr (), p1)" "pub_request p1 OpenChannel = (Inr (), p2)"
        "res = Inr ()" "p' = p2\<lparr>channel_handle := Some False\<rparr>"
proof -
  have hh: "channel_handle p = None \<or> channel_handle p = Some True"
    using h by (cases "channel_handle p") auto
  obtain r1 p1 where r1: "connection p = (r1, p1)" by (cases "connection p")
  obtain r2 p2 where r2: "pub_request p1 OpenChannel = (r2, p2)"
    by (cases "pub_request p1 OpenChannel")
  show ?thesis
  proof (cases r1)
    case (Inl x)
    have "channel p = (Inl x, p1)" using hh r1 Inl by (auto simp: channel_def)
    then show ?thesis using ch conn_failed [of x] r1 Inl by simp
  next
    case r1': (Inr u)
    show ?thesis
    proof (cases r2)
      case (Inl x)
      have "channel p = (Inl x, p2)" using hh r1 r1' r2 Inl by (auto simp: channel_def)
      then show ?thesis using ch chan_failed [of p1 x] r1 r1' r2 Inl by simp
    next
      case (Inr u2)
      have "channel p = (Inr (), p2\<lparr>channel_handle := Some False\<rparr>)"
        using hh r1 r1' r2 Inr by (auto simp: channel_def)
      then show ?thesis using ch opened [of p1 p2] r1 r1' r2 Inr by simp
    qed
  qed
qed

lemma channel_any:
  assumes ch: "channel p = (res, p')"
  shows "\<exists>ops. broker_ops (rabbit p') = broker_ops (rabbit p) @ ops \<and> \<not> list_ex is_publish ops"
    and "ran (rabbit p) (rabbit p') (new_ops p p') (res = Inr ())"
    and "broker_faults (rabbit p) = [] \<Longrightarrow> res = Inr () \<and> broker_faults (rabbit p') = []"
    and "list_all amqp_fault (broker_faults (rabbit p)) \<Longrightarrow>
           list_all amqp_fault (broker_faults (rabbit p'))"
    and "list_all amqp_fault (broker_faults (rabbit p)) \<Longrightarrow> res = Inl e \<Longrightarrow>
           e = AMQPConnectionError \<or> e = AMQPChannelError"
proof -
  show "\<exists>ops. broker_ops (rabbit p') = broker_ops (rabbit p) @ ops \<and> \<not> list_ex is_publish ops"
  proof (cases "channel_handle p = Some False")
    case True
    then show ?thesis using ch channel_open [OF True] by (intro exI [of _ "[]"]) simp
  next
    case False
    show ?thesis
      using ch False
    proof (cases rule: channel_cases)
      case (conn_failed x)
      then show ?thesis using connection_any(1) by blast
    next
      case (chan_failed p1 x)
      obtain ops where "broker_ops (rabbit p1) = broker_ops (rabbit p) @ ops"
        "\<not> list_ex is_publish ops"
        using connection_any(1) [OF chan_failed(1)] by blast
      then show ?thesis using pub_request_effect(1) [OF chan_failed(2)]
        by (intro exI [of _ "ops @ [OpenChannel]"]) (simp add: is_publish_def)
    next
      case (opened p1 p2)
      obtain ops where "broker_ops (rabbit p1) = broker_ops (rabbit p) @ ops"
        "\<not> list_ex is_publish ops"
        using connection_any(1) [OF opened(1)] by blast
      then show ?thesis using pub_request_effect(1) [OF opened(2)] opened(4)
        by (intro exI [of _ "ops @ [OpenChannel]"]) (simp add: is_publish_def)
    qed
  qed
  show "ran (rabbit p) (rabbit p') (new_ops p p') (res = Inr ())"
  proof (cases "channel_handle p = Some False")
    case True
    then show ?thesis
      using ch channel_open [OF True] ran_new_ops [OF ran_nothing [of "rabbit p"]]
      by simp
  next
    case False
    show ?thesis
      using ch False
    proof (cases rule: channel_cases)
      case (conn_failed x)
      then show ?thesis using connection_any(2) [OF conn_failed(1)] by simp
    next
      case (chan_failed p1 x)
      have "ran (rabbit p) (rabbit p') (new_ops p p1 @ [OpenChannel]) (res = Inr ())"
        using ran_then [of "rabbit p" "rabbit p1" "new_ops p p1" "rabbit p'" "[OpenChannel]"
            "res = Inr ()"]
          connection_any(2) [OF chan_failed(1)] pub_request_effect(2) [OF chan_failed(2)]
          chan_failed(3)
        by simp
      then show ?thesis by (rule ran_new_ops)
    next
      case (opened p1 p2)
      have "ran (rabbit p) (rabbit p') (new_ops p p1 @ [OpenChannel]) (res = Inr ())"
        using ran_then [of "rabbit p" "rabbit p1" "new_ops p p1" "rabbit p2" "[OpenChannel]"
            "res = Inr ()"]
          connection_any(2) [OF opened(1)] pub_request_effect(2) [OF opened(2)] opened(3,4)
        by simp
      then show ?thesis by (rule ran_new_ops)
    qed
  qed
  show "broker_faults (rabbit p) = [] \<Longrightarrow> res = Inr () \<and> broker_faults (rabbit p') = []"
  proof (cases "channel_handle p = Some False")
    case True
    assume "broker_faults (rabbit p) = []"
    then show ?thesis using ch channel_open [OF True] by simp
  next
    case False
    assume z: "broker_faults (rabbit p) = []"
    show ?thesis
      using ch False
    proof (cases rule: channel_cases)
      case (conn_failed x)
      then show ?thesis using connection_any(3) [OF conn_failed(1) z] by simp
    next
      case (chan_failed p1 x)
      then show ?thesis
        using connection_any(3) [OF chan_failed(1) z] pub_request_effect(5) [OF chan_failed(2)]
        by simp
    next
      case (opened p1 p2)
      then show ?thesis
        using connection_any(3) [OF opened(1) z] pub_request_effect(5) [OF opened(2)] by simp
    qed
  qed
  show "list_all amqp_fault (broker_faults (rabbit p)) \<Longrightarrow>
           list_all amqp_fault (broker_faults (rabbit p'))"
  proof (cases "channel_handle p = Some False")
    case True
    assume "list_all amqp_fault (broker_faults (rabbit p))"
    then show ?thesis using ch channel_open [OF True] by simp
  next
    case False
    assume z: "list_all amqp_fault (broker_faults (rabbit p))"
    show ?thesis
      using ch False
    proof (cases rule: channel_cases)
      case (conn_failed x)
      then show ?thesis using connection_any(4) [OF conn_failed(1) z] by simp
    next
      case (chan_failed p1 x)
      then show ?thesis
        using connection_any(4) [OF chan_failed(1) z] pub_request_effect(6) [OF chan_failed(2)]
        by simp
    next
      case (opened p1 p2)
      then show ?thesis
        using connection_any(4) [OF opened(1) z] pub_request_effect(6) [OF opened(2)] by simp
    qed
  qed
  show "list_all amqp_fault (broker_faults (rabbit p)) \<Longrightarrow> res = Inl e \<Longrightarrow>
           e = AMQPConnectionError \<or> e = AMQPChannelError"
  proof (cases "channel_handle p = Some False")
    case True
    assume "list_all amqp_fault (broker_faults (rabbit p))" "res = Inl e"
    then show ?thesis using ch channel_open [OF True] by simp
  next
    case False
    assume z: "list_all amqp_fault (broker_faults (rabbit p))" and r: "res = Inl e"
    show ?thesis
      using ch False
    proof (cases rule: channel_cases)
      case (conn_failed x)
      then show ?thesis using connection_any(5) [OF conn_failed(1) z, of e] r by simp
    next
      case (chan_failed p1 x)
      then show ?thesis
        using connection_any(4) [OF chan_failed(1) z]
          pub_request_effect(7) [OF chan_failed(2), of e] r
        by simp
    next
      case (opened p1 p2)
      then show ?thesis using r by simp
    qed
  qed
qed

lemma channel_reconnect:
  assumes ch: "channel p = (Inr (), p')"
    and h1: "connection_handle p \<noteq> Some False" and h2: "channel_handle p \<noteq> Some False"
  shows "broker_ops (rabbit p') = broker_ops (rabbit p) @
           [Connect, OpenChannel, ExchangeDeclare ''device_events'', OpenChannel]"
    and "connection_handle p' = Some False \<and> channel_handle p' = Some False"
proof -
  obtain p1 p2 where c1: "connection p = (Inr (), p1)"
    and c2: "pub_request p1 OpenChannel = (Inr (), p2)"
    and p': "p' = p2\<lparr>channel_handle := Some False\<rparr>"
    by (cases rule: channel_cases [OF ch h2]) auto
  have "broker_ops (rabbit p1) = broker_ops (rabbit p) @
          [Connect, OpenChannel, ExchangeDeclare ''device_events'']"
    using connection_effect(1) [OF c1 h1] by auto
  then show "broker_ops (rabbit p') = broker_ops (rabbit p) @
           [Connect, OpenChannel, ExchangeDeclare ''device_events'', OpenChannel]"
    using pub_request_effect(1) [OF c2] p' by simp
  show "connection_handle p' = Some False \<and> channel_handle p' = Some False"
    using connection_effect(6) [OF c1 h1] pub_request_effect(3) [OF c2] p' by simp
qed

lemma publish_failed_effect:
  assumes "publish_failed e p = (r, p')"
  shows "r = False" and "rabbit p' = rabbit p"
    and "e = AMQPConnectionError \<or> e = AMQPChannelError \<Longrightarrow>
           connection_handle p' = None \<and> channel_handle p' = None"
  using assms by (auto simp: publish_failed_def pub_logged_def split: if_splits)

lemma publish_event_cases:
  assumes pe: "publish_event p key ev now = (r, ev', p')"
  obtains (unserializable) "ev' = stamp ev now" "\<not> serializable (PyDict ev')"
      "publish_failed TypeError p = (r, p')"
  | (no_channel) x p1 where "ev' = stamp ev now" "serializable (PyDict ev')"
      "channel p = (Inl x, p1)" "publish_failed x p1 = (r, p')"
  | (refused) x p1 p2 where "ev' = stamp ev now" "serializable (PyDict ev')"
      "channel p = (Inr (), p1)" "pub_request p1 (BasicPublish key (PyDict ev')) = (Inl x, p2)"
      "publish_failed x p2 = (r, p')"
  | (published) p1 p2 where "ev' = stamp ev now" "serializable (PyDict ev')"
      "channel p = (Inr (), p1)" "pub_request p1 (BasicPublish key (PyDict ev')) = (Inr (), p2)"
      "r = True" "p' = pub_logged p2 INFO ''Published event''"
proof (cases "serializable (PyDict (stamp ev now))")
  case False
  obtain r0 p0 where f: "publish_failed TypeError p = (r0, p0)"
    by (cases "publish_failed TypeError p")
  have "publish_event p key ev now = (r0, stamp ev now, p0)"
    using False f by (simp add: publish_event_def json_dumps_def Let_def)
  then show ?thesis using pe unserializable False f by simp
next
  case True
  obtain r1 p1 where r1: "channel p = (r1, p1)" by (cases "channel p")
  show ?thesis
  proof (cases r1)
    case (Inl x)
    obtain r0 p0 where f: "publish_failed x p1 = (r0, p0)" by (cases "publish_failed x p1")
    have "publish_event p key ev now = (r0, stamp ev now, p0)"
      using True r1 Inl f by (simp add: publish_event_def json_dumps_def Let_def)
    then show ?thesis using pe no_channel True r1 Inl f by simp
  next
    case r1': (Inr u)
    obtain r2 p2 where r2: "pub_request p1 (BasicPublish key (PyDict (stamp ev now))) = (r2, p2)"
      by (cases "pub_request p1 (BasicPublish key (PyDict (stamp ev now)))")
    show ?thesis
    proof (cases r2)
      case (Inl x)
      obtain r0 p0 where f: "publish_failed x p2 = (r0, p0)" by (cases "publish_failed x p2")
      have "publish_event p key ev now = (r0, stamp ev now, p0)"
        using True r1 r1' r2 Inl f by (simp add: publish_event_def json_dumps_def Let_def)
      then show ?thesis using pe refused True r1 r1' r2 Inl f by simp
    next
      case (Inr u2)
      have "publish_event p key ev now =
          (True, stamp ev now, pub_logged p2 INFO ''Published event'')"
        using True r1 r1' r2 Inr by (simp add: publish_event_def json_dumps_def Let_def)
      then show ?thesis using pe published True r1 r1' r2 Inr by simp
    qed
  qed
qed

lemma new_ops_append:
  "broker_ops (rabbit p') = broker_ops (rabbit p) @ ops \<Longrightarrow> new_ops p p' = ops"
  by (simp add: new_ops_def)

lemma no_publish_filter: "\<not> list_ex is_publish ops \<Longrightarrow> filter is_publish ops = []"
  by (induction ops) auto

lemma publish_event_attempts:
  assumes pe: "publish_event p key ev now = (r, ev', p')"
  shows "length (filter is_publish (new_ops p p')) \<le> 1"
  using pe
proof (cases rule: publish_event_cases)
  case unserializable
  then show ?thesis using publish_failed_effect(2) [OF unserializable(3)]
    by (simp add: new_ops_def)
next
  case (no_channel x p1)
  obtain ops where o: "broker_ops (rabbit p1) = broker_ops (rabbit p) @ ops"
      "\<not> list_ex is_publish ops"
    using channel_any(1) [OF no_channel(3)] by blast
  have "new_ops p p' = ops"
    using o(1) publish_failed_effect(2) [OF no_channel(4)] by (simp add: new_ops_def)
  then show ?thesis using no_publish_filter [OF o(2)] by simp
next
  case (refused x p1 p2)
  obtain ops where o: "broker_ops (rabbit p1) = broker_ops (rabbit p) @ ops"
      "\<not> list_ex is_publish ops"
    using channel_any(1) [OF refused(3)] by blast
  have "new_ops p p' = ops @ [BasicPublish key (PyDict ev')]"
    using o(1) pub_request_effect(1) [OF refused(4)] publish_failed_effect(2) [OF refused(5)]
    by (simp add: new_ops_def)
  then show ?thesis using no_publish_filter [OF o(2)] by simp
next
  case (published p1 p2)
  obtain ops where o: "broker_ops (rabbit p1) = broker_ops (rabbit p) @ ops"
      "\<not> list_ex is_publish ops"
    using channel_any(1) [OF published(3)] by blast
  have "new_ops p p' = ops @ [BasicPublish key (PyDict ev')]"
    using o(1) pub_request_effect(1) [OF published(4)] published(6)
    by (simp add: new_ops_def pub_logged_def)
  then show ?thesis using no_publish_filter [OF o(2)] by simp
qed

lemma publish_event_ran:
  assumes pe: "publish_event p key ev now = (r, ev', p')" and s: "serializable (PyDict ev')"
  shows "ran (rabbit p) (rabbit p') (new_ops p p') r"
  using pe
proof (cases rule: publish_event_cases)
  case unserializable
  then show ?thesis using s by simp
next
  case (no_channel x p1)
  have "ran (rabbit p) (rabbit p') (new_ops p p1) r"
    using channel_any(2) [OF no_channel(3)] publish_failed_effect(1,2) [OF no_channel(4)]
    by simp
  then show ?thesis by (rule ran_new_ops)
next
  case (refused x p1 p2)
  have "ran (rabbit p) (rabbit p') (new_ops p p1 @ [BasicPublish key (PyDict ev')]) r"
    using ran_then [of "rabbit p" "rabbit p1" "new_ops p p1" "rabbit p2"
        "[BasicPublish key (PyDict ev')]" False]
      channel_any(2) [OF refused(3)] pub_request_effect(2) [OF refused(4)]
      publish_failed_effect(1,2) [OF refused(5)]
    by simp
  then show ?thesis by (rule ran_new_ops)
next
  case (published p1 p2)
  have "ran (rabbit p) (rabbit p') (new_ops p p1 @ [BasicPublish key (PyDict ev')]) r"
    using ran_then [of "rabbit p" "rabbit p1" "new_ops p p1" "rabbit p2"
        "[BasicPublish key (PyDict ev')]" True]
      channel_any(2) [OF published(3)] pub_request_effect(2) [OF published(4)] published(5,6)
    by (simp add: pub_logged_def)
  then show ?thesis by (rule ran_new_ops)
qed

lemma publish_event_result:
  assumes pe: "publish_event p key ev now = (r, ev', p')"
  shows "r = (serializable (PyDict ev') \<and> answered (rabbit p) (length (new_ops p p')))"
proof (cases "serializable (PyDict ev')")
  case True
  then show ?thesis using publish_event_ran [OF pe True] by (simp add: ran_def)
next
  case False
  show ?thesis
    using pe
  proof (cases rule: publish_event_cases)
    case unserializable
    then show ?thesis using publish_failed_effect(1) [OF unserializable(3)] by simp
  next
    case (no_channel x p1)
    then show ?thesis using False by simp
  next
    case (refused x p1 p2)
    then show ?thesis using False by simp
  next
    case (published p1 p2)
    then show ?thesis using False by simp
  qed
qed

lemma publish_event_sent:
  assumes pe: "publish_event p key ev now = (True, ev', p')"
  shows "new_ops p p' \<noteq> [] \<and> last (new_ops p p') = BasicPublish key (PyDict ev')"
  using pe
proof (cases rule: publish_event_cases)
  case unserializable
  then show ?thesis using publish_failed_effect(1) [OF unserializable(3)] by simp
next
  case (no_channel x p1)
  then show ?thesis using publish_failed_effect(1) [OF no_channel(4)] by simp
next
  case (refused x p1 p2)
  then show ?thesis using publish_failed_effect(1) [OF refused(5)] by simp
next
  case (published p1 p2)
  obtain ops where o: "broker_ops (rabbit p1) = broker_ops (rabbit p) @ ops"
    using channel_any(1) [OF published(3)] by blast
  have "new_ops p p' = ops @ [BasicPublish key (PyDict ev')]"
    using o pub_request_effect(1) [OF published(4)] published(6)
    by (simp add: new_ops_def pub_logged_def)
  then show ?thesis by simp
qed

lemma publish_event_open_channel:
  assumes pe: "publish_event p key ev now = (r, ev', p')"
    and h: "channel_handle p = Some False" and s: "serializable (PyDict ev')"
  shows "new_ops p p' = [BasicPublish key (PyDict ev')]"
  using pe
proof (cases rule: publish_event_cases)
  case unserializable
  then show ?thesis using s by simp
next
  case (no_channel x p1)
  then show ?thesis using channel_open [OF h] by simp
next
  case (refused x p1 p2)
  then have "p1 = p" using channel_open [OF h] by simp
  then show ?thesis
    using pub_request_effect(1) [OF refused(4)] publish_failed_effect(2) [OF refused(5)]
    by (simp add: new_ops_def)
next
  case (published p1 p2)
  then have "p1 = p" using channel_open [OF h] by simp
  then show ?thesis
    using pub_request_effect(1) [OF published(4)] published(6)
    by (simp add: new_ops_def pub_logged_def)
qed

lemma publish_event_reconnects:
  assumes pe: "publish_event p key ev now = (True, ev', p')"
    and h1: "connection_handle p \<noteq> Some False" and h2: "channel_handle p \<noteq> Some False"
  shows "new_ops p p' = [Connect, OpenChannel, ExchangeDeclare ''device_events'', OpenChannel,
                         BasicPublish key (PyDict ev')]"
  using pe
proof (cases rule: publish_event_cases)
  case unserializable
  then show ?thesis using publish_failed_effect(1) [OF unserializable(3)] by simp
next
  case (no_channel x p1)
  then show ?thesis using publish_failed_effect(1) [OF no_channel(4)] by simp
next
  case (refused x p1 p2)
  then show ?thesis using publish_failed_effect(1) [OF refused(5)] by simp
next
  case (published p1 p2)
  then show ?thesis
    using channel_reconnect(1) [OF published(3) h1 h2] pub_request_effect(1) [OF published(4)]
    by (simp add: new_ops_def pub_logged_def)
qed

lemma take_1_append: "take 1 xs = [c] \<Longrightarrow> take 1 (xs @ ys) = [c]"
  by (cases xs) auto

lemma new_ops_then:
  "broker_ops (rabbit p1) = broker_ops (rabbit p) @ xs \<Longrightarrow>
   broker_ops (rabbit p2) = broker_ops (rabbit p1) @ ys \<Longrightarrow>
   new_ops p p2 = new_ops p p1 @ ys"
  by (simp add: new_ops_def)

lemma channel_starts:
  assumes ch: "channel p = (res, p')"
    and h1: "connection_handle p \<noteq> Some False" and h2: "channel_handle p \<noteq> Some False"
  shows "take 1 (new_ops p p') = [Connect]"
  using ch h2
proof (cases rule: channel_cases)
  case (conn_failed x)
  then show ?thesis using connection_effect(7) [OF conn_failed(1) h1] by simp
next
  case (chan_failed p1 x)
  obtain ops where o: "broker_ops (rabbit p1) = broker_ops (rabbit p) @ ops"
    using connection_any(1) [OF chan_failed(1)] by blast
  show ?thesis
    using new_ops_then [OF o pub_request_effect(1) [OF chan_failed(2)]]
      take_1_append [OF connection_effect(7) [OF chan_failed(1) h1]]
    by simp
next
  case (opened p1 p2)
  obtain ops where o: "broker_ops (rabbit p1) = broker_ops (rabbit p) @ ops"
    using connection_any(1) [OF opened(1)] by blast
  have "new_ops p p' = new_ops p p2" using opened(4) by (simp add: new_ops_def)
  then show ?thesis
    using new_ops_then [OF o pub_request_effect(1) [OF opened(2)]]
      take_1_append [OF connection_effect(7) [OF opened(1) h1]]
    by simp
qed

lemma publish_event_connects:
  assumes pe: "publish_event p key ev now = (r, ev', p')"
    and h1: "connection_handle p \<noteq> Some False" and h2: "channel_handle p \<noteq> Some False"
    and s: "serializable (PyDict ev')"
  shows "take 1 (new_ops p p') = [Connect]"
  using pe
proof (cases rule: publish_event_cases)
  case unserializable
  then show ?thesis using s by simp
next
  case (no_channel x p1)
  have "new_ops p p' = new_ops p p1"
    using publish_failed_effect(2) [OF no_channel(4)] by (simp add: new_ops_def)
  then show ?thesis using channel_starts [OF no_channel(3) h1 h2] by simp
next
  case (refused x p1 p2)
  obtain ops where o: "broker_ops (rabbit p1) = broker_ops (rabbit p) @ ops"
    using channel_any(1) [OF refused(3)] by blast
  have "new_ops p p' = new_ops p p2"
    using publish_failed_effect(2) [OF refused(5)] by (simp add: new_ops_def)
  then show ?thesis
    using new_ops_then [OF o pub_request_effect(1) [OF refused(4)]]
      take_1_append [OF channel_starts [OF refused(3) h1 h2]]
    by simp
next
  case (published p1 p2)
  obtain ops where o: "broker_ops (rabbit p1) = broker_ops (rabbit p) @ ops"
    using channel_any(1) [OF published(3)] by blast
  have "new_ops p p' = new_ops p p2"
    using published(6) by (simp add: new_ops_def pub_logged_def)
  then show ?thesis
    using new_ops_then [OF o pub_request_effect(1) [OF published(4)]]
      take_1_append [OF channel_starts [OF published(3) h1 h2]]
    by simp
qed

lemma publish_event_healthy:
  assumes pe: "publish_event p key ev now = (r, ev', p')"
    and s: "serializable (PyDict ev')" and z: "broker_faults (rabbit p) = []"
  shows "r"
  using pe
proof (cases rule: publish_event_cases)
  case unserializable
  then show ?thesis using s by simp
next
  case (no_channel x p1)
  then show ?thesis using channel_any(3) [OF no_channel(3) z] by simp
next
  case (refused x p1 p2)
  then show ?thesis
    using channel_any(3) [OF refused(3) z] pub_request_effect(5) [OF refused(4)] by simp
next
  case (published p1 p2)
  then show ?thesis by simp
qed

lemma publish_event_resets:
  assumes pe: "publish_event p key ev now = (False, ev', p')"
    and s: "serializable (PyDict ev')" and z: "list_all amqp_fault (broker_faults (rabbit p))"
  shows "connection_handle p' = None \<and> channel_handle p' = None"
  using pe
proof (cases rule: publish_event_cases)
  case unserializable
  then show ?thesis using s by simp
next
  case (no_channel x p1)
  then show ?thesis
    using channel_any(5) [OF no_channel(3) z, of x] publish_failed_effect(3) [OF no_channel(4)]
    by simp
next
  case (refused x p1 p2)
  then show ?thesis
    using channel_any(4) [OF refused(3) z] pub_request_effect(7) [OF refused(4), of x]
      publish_failed_effect(3) [OF refused(5)]
    by simp
next
  case (published p1 p2)
  then show ?thesis by simp
qed

subsection \<open>Evaluating the clock and the publisher on concrete inputs\<close>

lemma zpad_2: "zpad 2 n = [digit_char (n div 10 mod 10), digit_char (n mod 10)]"
proof -
  have h: "(2::nat) = Suc (Suc 0)" by simp
  show ?thesis unfolding h by simp
qed

lemma zpad_4:
  "zpad 4 n = [digit_char (n div 10 div 10 div 10 mod 10), digit_char (n div 10 div 10 mod 10),
               digit_char (n div 10 mod 10), digit_char (n mod 10)]"
proof -
  have h: "(4::nat) = Suc (Suc (Suc (Suc 0)))" by simp
  show ?thesis unfolding h by simp
qed

lemma zpad_6:
  "zpad 6 n = [digit_char (n div 10 div 10 div 10 div 10 div 10 mod 10),
               digit_char (n div 10 div 10 div 10 div 10 mod 10),
               digit_char (n div 10 div 10 div 10 mod 10), digit_char (n div 10 div 10 mod 10),
               digit_char (n div 10 mod 10), digit_char (n mod 10)]"
proof -
  have h: "(6::nat) = Suc (Suc (Suc (Suc (Suc (Suc 0)))))" by simp
  show ?thesis unfolding h by simp
qed

lemmas clock_eval = isoformat_def digit_char_def zpad_2 zpad_4 zpad_6

lemma isoformat_noon: "isoformat noon = ''2024-01-15T12:00:00''"
  by (simp add: clock_eval noon_def)

lemmas publisher_eval =
  publish_event_def stamp_def has_key_def py_set_def json_dumps_def channel_def connection_def
  pub_request_def request_def publish_failed_def pub_logged_def connection_raised_def Let_def
  reading_def isoformat_noon

text \<open>
  C6, as stated, fails. The publisher's handles look open, the socket behind them was
  lost, and a new connection would succeed. The call sends the one publish that fails,
  returns \<^verbatim>\<open>False\<close> and resets the handles: it neither connects again nor declares the
  exchange nor publishes a second time.
\<close>

theorem publish_event_retry_counterexample:
  "publish_event stale_publisher ''device.event'' reading noon =
     (False,
      [(''device_id'', PyInt 7), (''event_type'', PyStr ''alert''),
       (''timestamp'', PyStr ''2024-01-15T12:00:00'')],
      \<lparr>connection_handle = None, channel_handle = None,
       rabbit = \<lparr>broker_faults = [],
                 broker_ops = [BasicPublish ''device.event''
                   (PyDict [(''device_id'', PyInt 7), (''event_type'', PyStr ''alert''),
                            (''timestamp'', PyStr ''2024-01-15T12:00:00'')])]\<rparr>,
       publisher_log = [(ERROR, ''RabbitMQ publish error'')]\<rparr>)"
  by (simp add: publisher_eval stale_publisher_def)

text \<open>
  C6, amended. A call attempts the publish at most once: there is no retry inside a call.
  It returns \<^verbatim>\<open>True\<close> exactly when the event could be serialized and none of the requests
  that the call sent raised, and then the last of them is the publish of the stamped
  event; \<^verbatim>\<open>True\<close> says no more than that, since the publisher asks for no confirmation
  from the broker. A call that finds its channel handle open sends the publish and nothing
  else, whatever the outcome: when the publish raises, the call returns \<^verbatim>\<open>False\<close> and has
  not connected again. A call that finds neither handle open starts by connecting, and
  when it returns \<^verbatim>\<open>True\<close> it has connected, opened a channel, declared the exchange and
  opened the channel of the property before its one publish. With a serializable event and
  a broker that answers every request the call returns \<^verbatim>\<open>True\<close>. When the broker's
  failures are connection or channel errors, a call that returns \<^verbatim>\<open>False\<close> has reset both
  handles, so the next call reconnects. The function returns a Boolean in every case: each
  exception of its body is caught by one of its two handlers.
\<close>

theorem publish_event_one_attempt:
  assumes "publish_event p key ev now = (r, ev', p')"
  shows "length (filter is_publish (new_ops p p')) \<le> 1 \<and>
     r = (serializable (PyDict ev') \<and> answered (rabbit p) (length (new_ops p p'))) \<and>
     (r \<longrightarrow> new_ops p p' \<noteq> [] \<and> last (new_ops p p') = BasicPublish key (PyDict ev')) \<and>
     (channel_handle p = Some False \<and> serializable (PyDict ev') \<longrightarrow>
        new_ops p p' = [BasicPublish key (PyDict ev')] \<and> r = answered (rabbit p) 1) \<and>
     (connection_handle p \<noteq> Some False \<and> channel_handle p \<noteq> Some False \<and>
      serializable (PyDict ev') \<longrightarrow> take 1 (new_ops p p') = [Connect]) \<and>
     (r \<and> connection_handle p \<noteq> Some False \<and> channel_handle p \<noteq> Some False \<longrightarrow>
        new_ops p p' = [Connect, OpenChannel, ExchangeDeclare ''device_events'', OpenChannel,
                        BasicPublish key (PyDict ev')]) \<and>
     (serializable (PyDict ev') \<and> broker_faults (rabbit p) = [] \<longrightarrow> r) \<and>
     (\<not> r \<and> serializable (PyDict ev') \<and> list_all amqp_fault (broker_faults (rabbit p)) \<longrightarrow>
        connection_handle p' = None \<and> channel_handle p' = None)"
proof -
  have a: "length (filter is_publish (new_ops p p')) \<le> 1"
    using publish_event_attempts [OF assms] .
  have b: "r = (serializable (PyDict ev') \<and> answered (rabbit p) (length (new_ops p p')))"
    using publish_event_result [OF assms] .
  have b': "r \<longrightarrow> new_ops p p' \<noteq> [] \<and> last (new_ops p p') = BasicPublish key (PyDict ev')"
    using publish_event_sent [of p key ev now ev' p'] assms by auto
  have o: "channel_handle p = Some False \<and> serializable (PyDict ev') \<longrightarrow>
        new_ops p p' = [BasicPublish key (PyDict ev')] \<and> r = answered (rabbit p) 1"
  proof
    assume h: "channel_handle p = Some False \<and> serializable (PyDict ev')"
    have n: "new_ops p p' = [BasicPublish key (PyDict ev')]"
      using publish_event_open_channel [OF assms] h by simp
    show "new_ops p p' = [BasicPublish key (PyDict ev')] \<and> r = answered (rabbit p) 1"
      using n b h by simp
  qed
  have s: "connection_handle p \<noteq> Some False \<and> channel_handle p \<noteq> Some False \<and>
      serializable (PyDict ev') \<longrightarrow> take 1 (new_ops p p') = [Connect]"
    using publish_event_connects [OF assms] by simp
  have c: "r \<and> connection_handle p \<noteq> Some False \<and> channel_handle p \<noteq> Some False \<longrightarrow>
        new_ops p p' = [Connect, OpenChannel, ExchangeDeclare ''device_events'', OpenChannel,
                        BasicPublish key (PyDict ev')]"
    using publish_event_reconnects [of p key ev now ev' p'] assms by auto
  have d: "serializable (PyDict ev') \<and> broker_faults (rabbit p) = [] \<longrightarrow> r"
    using publish_event_healthy [OF assms] by auto
  have e: "\<not> r \<and> serializable (PyDict ev') \<and> list_all amqp_fault (broker_faults (rabbit p)) \<longrightarrow>
        connection_handle p' = None \<and> channel_handle p' = None"
    using publish_event_resets [of p key ev now ev' p'] assms by auto
  show ?thesis using a b b' o s c d e by blast
qed

theorem publish_event_one_attempt_witness:
  "publish_event fresh_publisher ''device.event'' reading noon =
     (True, stamp reading noon,
      snd (snd (publish_event fresh_publisher ''device.event'' reading noon))) \<and>
   connection_handle fresh_publisher \<noteq> Some False \<and>
   channel_handle fresh_publisher \<noteq> Some False \<and>
   serializable (PyDict (stamp reading noon)) \<and>
   broker_faults (rabbit fresh_publisher) = [] \<and>
   new_ops fresh_publisher (snd (snd (publish_event fresh_publisher ''device.event'' reading noon)))
     = [Connect, OpenChannel, ExchangeDeclare ''device_events'', OpenChannel,
        BasicPublish ''device.event'' (PyDict (stamp reading noon))] \<and>
   publish_event stale_publisher ''device.event'' reading noon =
     (False, stamp reading noon,
      snd (snd (publish_event stale_publisher ''device.event'' reading noon))) \<and>
   channel_handle stale_publisher = Some False \<and>
   list_all amqp_fault (broker_faults (rabbit stale_publisher)) \<and>
   \<not> answered (rabbit stale_publisher) 1 \<and>
   new_ops stale_publisher (snd (snd (publish_event stale_publisher ''device.event'' reading noon)))
     = [BasicPublish ''device.event'' (PyDict (stamp reading noon))] \<and>
   connection_handle (snd (snd (publish_event stale_publisher ''device.event'' reading noon)))
     = None \<and>
   channel_handle (snd (snd (publish_event stale_publisher ''device.event'' reading noon)))
     = None"
proof -
  have f: "publish_event fresh_publisher ''device.event'' reading noon =
     (True, stamp reading noon,
      snd (snd (publish_event fresh_publisher ''device.event'' reading noon)))"
    by (simp add: publisher_eval fresh_publisher_def)
  have s: "publish_event stale_publisher ''device.event'' reading noon =
     (False, stamp reading noon,
      snd (snd (publish_event stale_publisher ''device.event'' reading noon)))"
    by (simp add: publisher_eval stale_publisher_def)
  have h: "connection_handle fresh_publisher \<noteq> Some False"
    "channel_handle fresh_publisher \<noteq> Some False"
    "broker_faults (rabbit fresh_publisher) = []"
    by (simp_all add: fresh_publisher_def)
  have g: "serializable (PyDict (stamp reading noon))"
    by (simp add: publisher_eval)
  have k: "list_all amqp_fault (broker_faults (rabbit stale_publisher))"
    "channel_handle stale_publisher = Some False"
    "\<not> answered (rabbit stale_publisher) 1"
    by (simp_all add: stale_publisher_def amqp_fault_def answered_def)
  show ?thesis
    using publish_event_one_attempt [OF f] publish_event_one_attempt [OF s] f s h g k
    by simp
qed

subsection \<open>Event store\<close>

lemmas store_eval =
  get_events_def checked_limit_def EventsDAO_get_all_def find_sorted_def mongo_fault_def
  build_query_def py_set_def py_get_def has_key_def matches_def field_matches_def
  value_matches_def sort_desc_def limit_docs_def event_response_def by_type_def Let_def

lemmas telemetry_eval =
  TelemetryDAO_get_all_def telemetry_response_def opt_str_ok_def py_pop_def

lemma matches_empty_query: "filter (matches []) ds = ds"
  by (simp add: matches_def)

text \<open>
  C10. A device id of 0 and an empty type string are dropped from the query document, so
  the call is the call without that filter, for both stores, whatever the collection, the
  other filter and the limit are. With both filters falsy the query document is empty and
  the call returns the most recent records of the whole collection, of every device and
  type, up to the limit.
\<close>

theorem get_all_falsy_filter_omitted:
  "EventsDAO_get_all v c (Some 0) ev_type n = EventsDAO_get_all v c None ev_type n \<and>
   EventsDAO_get_all v c dev_id (Some []) n = EventsDAO_get_all v c dev_id None n \<and>
   TelemetryDAO_get_all v c (Some 0) dev_type n = TelemetryDAO_get_all v c None dev_type n \<and>
   TelemetryDAO_get_all v c dev_id (Some []) n = TelemetryDAO_get_all v c dev_id None n \<and>
   EventsDAO_get_all v c (Some 0) (Some []) n =
     (case mongo_fault c of
        (Some e, c1) \<Rightarrow> (Inl e, c1)
      | (None, c1) \<Rightarrow>
          (collect (event_response v) (limit_docs n (sort_desc ''timestamp'' (docs c1))), c1)) \<and>
   TelemetryDAO_get_all v c (Some 0) (Some []) n =
     (case mongo_fault c of
        (Some e, c1) \<Rightarrow> (Inl e, c1)
      | (None, c1) \<Rightarrow>
          (collect (telemetry_response v) (limit_docs n (sort_desc ''timestamp'' (docs c1))),
           c1))"
proof -
  have q: "build_query (Some 0) f t = build_query None f t"
    "build_query d f (Some []) = build_query d f None"
    "build_query None f None = []" for f t d
    by (simp_all add: build_query_def)
  have f: "find_sorted c [] ''timestamp'' n =
      (case mongo_fault c of
         (Some e, c1) \<Rightarrow> (Inl e, c1)
       | (None, c1) \<Rightarrow> (Inr (limit_docs n (sort_desc ''timestamp'' (docs c1))), c1))"
    by (simp add: find_sorted_def matches_empty_query split: prod.splits option.splits)
  have e: "EventsDAO_get_all v c (Some 0) (Some []) n =
     (case mongo_fault c of
        (Some e, c1) \<Rightarrow> (Inl e, c1)
      | (None, c1) \<Rightarrow>
          (collect (event_response v) (limit_docs n (sort_desc ''timestamp'' (docs c1))), c1))"
    by (cases "mongo_fault c")
       (simp add: EventsDAO_get_all_def q f split: prod.splits option.splits)
  have t: "TelemetryDAO_get_all v c (Some 0) (Some []) n =
     (case mongo_fault c of
        (Some e, c1) \<Rightarrow> (Inl e, c1)
      | (None, c1) \<Rightarrow>
          (collect (telemetry_response v) (limit_docs n (sort_desc ''timestamp'' (docs c1))),
           c1))"
    by (cases "mongo_fault c")
       (simp add: TelemetryDAO_get_all_def q f split: prod.splits option.splits)
  show ?thesis
    using e t by (simp add: EventsDAO_get_all_def TelemetryDAO_get_all_def q)
qed

theorem get_all_falsy_filter_omitted_witness:
  "EventsDAO_get_all by_type event_log (Some 0) (Some []) 10 =
     (Inr [\<lparr>event_id = ObjectId 1, event_device_id = PyInt 2, event_type = PyStr ''deployed'',
            event_timestamp = PyStr ''2024-01-12T09:30:00'', details = PyDict []\<rparr>,
           \<lparr>event_id = ObjectId 0, event_device_id = PyInt 1, event_type = PyStr ''alert'',
            event_timestamp = PyStr ''2024-01-10T08:00:00'', details = PyDict []\<rparr>,
           \<lparr>event_id = ObjectId 2, event_device_id = PyInt 1, event_type = PyStr ''deployed'',
            event_timestamp = PyStr ''2023-11-02T17:45:10'', details = PyDict []\<rparr>],
      event_log) \<and>
   filter (matches [(''device_id'', PyInt 0)]) (docs event_log) = [] \<and>
   TelemetryDAO_get_all by_type telemetry_log (Some 0) (Some []) 10 =
     (Inr [\<lparr>telemetry_id = ObjectId 1, telemetry_device_id = PyInt 2,
            telemetry_timestamp = PyStr ''2024-01-12T09:30:00'',
            device_name = PyStr ''gateway'', telemetry_location = PyNone,
            extra = [(''temperature'', PyInt 35), (''device_type'', PyStr ''other'')]\<rparr>,
           \<lparr>telemetry_id = ObjectId 0, telemetry_device_id = PyInt 1,
            telemetry_timestamp = PyStr ''2024-01-10T08:00:00'',
            device_name = PyStr ''probe'', telemetry_location = PyNone,
            extra = [(''temperature'', PyInt 21), (''device_type'', PyStr ''iot_sensor'')]\<rparr>],
      telemetry_log) \<and>
   filter (matches [(''device_id'', PyInt 0)]) (docs telemetry_log) = []"
proof -
  have a: "mongo_fault event_log = (None, event_log)"
    "mongo_fault telemetry_log = (None, telemetry_log)"
    by (simp_all add: mongo_fault_def event_log_def telemetry_log_def)
  have b: "collect (event_response by_type)
        (limit_docs 10 (sort_desc ''timestamp'' (docs event_log))) =
      Inr [\<lparr>event_id = ObjectId 1, event_device_id = PyInt 2, event_type = PyStr ''deployed'',
            event_timestamp = PyStr ''2024-01-12T09:30:00'', details = PyDict []\<rparr>,
           \<lparr>event_id = ObjectId 0, event_device_id = PyInt 1, event_type = PyStr ''alert'',
            event_timestamp = PyStr ''2024-01-10T08:00:00'', details = PyDict []\<rparr>,
           \<lparr>event_id = ObjectId 2, event_device_id = PyInt 1, event_type = PyStr ''deployed'',
            event_timestamp = PyStr ''2023-11-02T17:45:10'', details = PyDict []\<rparr>]"
    by (simp add: store_eval event_log_def)
  have c: "collect (telemetry_response by_type)
        (limit_docs 10 (sort_desc ''timestamp'' (docs telemetry_log))) =
      Inr [\<lparr>telemetry_id = ObjectId 1, telemetry_device_id = PyInt 2,
            telemetry_timestamp = PyStr ''2024-01-12T09:30:00'',
            device_name = PyStr ''gateway'', telemetry_location = PyNone,
            extra = [(''temperature'', PyInt 35), (''device_type'', PyStr ''other'')]\<rparr>,
           \<lparr>telemetry_id = ObjectId 0, telemetry_device_id = PyInt 1,
            telemetry_timestamp = PyStr ''2024-01-10T08:00:00'',
            device_name = PyStr ''probe'', telemetry_location = PyNone,
            extra = [(''temperature'', PyInt 21), (''device_type'', PyStr ''iot_sensor'')]\<rparr>]"
    by (simp add: store_eval telemetry_eval telemetry_log_def)
  have d: "filter (matches [(''device_id'', PyInt 0)]) (docs event_log) = []"
    "filter (matches [(''device_id'', PyInt 0)]) (docs telemetry_log) = []"
    by (simp_all add: store_eval event_log_def telemetry_log_def)
  show ?thesis
    using get_all_falsy_filter_omitted
        [where v = by_type and c = event_log and n = 10 and ev_type = None and dev_type = None
           and dev_id = None]
      get_all_falsy_filter_omitted
        [where v = by_type and c = telemetry_log and n = 10 and ev_type = None
           and dev_type = None and dev_id = None]
      a b c d
    by simp
qed

text \<open>
  The cutoff of \<^verbatim>\<open>delete_old_data\<close> exists only when \<open>days\<close> is less than the day of the
  month: otherwise \<^verbatim>\<open>replace\<close> raises and nothing is deleted.
\<close>

lemma delete_old_data_raises:
  "day now \<le> days \<Longrightarrow>
   EventsDAO_delete_old_data c days now = (Inl ValueError, c) \<and>
   TelemetryDAO_delete_old_data c days now = (Inl ValueError, c)"
  by (simp add: EventsDAO_delete_old_data_def TelemetryDAO_delete_old_data_def replace_day_def
        Let_def)

text \<open>
  C5 at the failing input: on 15 January 2024 at noon, with the default window of 30 days,
  \<^verbatim>\<open>delete_old_data\<close> raises \<^verbatim>\<open>ValueError\<close> for both stores. The record of 2 November 2023
  is older than the window and is still in the collection, and no count is returned.
\<close>

theorem delete_old_data_default_window_raises:
  "EventsDAO_delete_old_data event_log 30 noon = (Inl ValueError, event_log) \<and>
   TelemetryDAO_delete_old_data event_log 30 noon = (Inl ValueError, event_log) \<and>
   [(''device_id'', PyInt 1), (''event_type'', PyStr ''deployed''),
    (''timestamp'', PyStr ''2023-11-02T17:45:10''), (''_id'', ObjectId 2)] \<in> set (docs event_log)"
  by (simp add: EventsDAO_delete_old_data_def TelemetryDAO_delete_old_data_def replace_day_def
        days_in_month_def noon_def Let_def event_log_def)

lemma py_get_py_set: "py_get (py_set d k v) k' = (if k' = k then Some v else py_get d k')"
  by (simp add: py_get_def py_set_def update_conv')

lemma has_key_py_get: "has_key d k \<longleftrightarrow> py_get d k \<noteq> None"
  by (simp add: has_key_def py_get_def map_of_eq_None_iff)

lemma insert_one_stored:
  assumes "insert_one c doc = (Inr oid, doc', c')"
  shows "docs c' = docs c @ [doc']"
    and "py_get doc' ''_id'' = Some oid"
    and "k \<noteq> ''_id'' \<Longrightarrow> py_get doc' k = py_get doc k"
  using assms
  by (auto simp: insert_one_def mongo_fault_def Let_def py_get_py_set has_key_py_get
       split: if_splits prod.splits list.splits option.splits)

lemma dao_insert_stored:
  assumes "EventsDAO_insert c data now = (Inr oid, data', c') \<or>
           TelemetryDAO_insert c data now = (Inr oid, data', c')"
  shows "docs c' = docs c @ [data'] \<and>
         py_get data' ''timestamp'' =
           (if has_key data ''timestamp'' then py_get data ''timestamp''
            else Some (PyStr (isoformat now))) \<and>
         py_get data' ''device_id'' = py_get data ''device_id''"
proof -
  let ?d = "if \<not> has_key data ''timestamp''
            then py_set data ''timestamp'' (PyStr (isoformat now)) else data"
  have i: "insert_one c ?d = (Inr oid, data', c')"
    using assms by (auto simp: EventsDAO_insert_def TelemetryDAO_insert_def Let_def)
  have "py_get data' ''timestamp'' = py_get ?d ''timestamp''"
    and "py_get data' ''device_id'' = py_get ?d ''device_id''"
    using insert_one_stored(3) [OF i] by simp_all
  then show ?thesis using insert_one_stored(1) [OF i] by (simp add: py_get_py_set)
qed

lemma publish_event_stamped:
  assumes "publish_event p key ev now = (r, ev', p')"
  shows "ev' = stamp ev now"
  using assms by (cases rule: publish_event_cases) simp_all

lemma publish_wrappers_fields:
  assumes "publish_telemetry p i nm d now = (r, ev, p') \<or>
           publish_device_event p i nm ty d now = (r, ev, p')"
  shows "py_get ev ''device_id'' = Some (PyInt i) \<and>
         py_get ev ''timestamp'' = Some (PyStr (isoformat now))"
  using assms
proof
  assume "publish_telemetry p i nm d now = (r, ev, p')"
  then have "ev = stamp [(''event_type'', PyStr ''telemetry''), (''device_id'', PyInt i),
        (''device_name'', PyStr nm), (''data'', PyDict d)] now"
    using publish_event_stamped by (simp add: publish_telemetry_def)
  then show ?thesis by (simp add: stamp_def has_key_def py_get_py_set) (simp add: py_get_def)
next
  assume "publish_device_event p i nm ty d now = (r, ev, p')"
  then have "ev = stamp [(''event_type'', PyStr ty), (''device_id'', PyInt i),
        (''device_name'', PyStr nm), (''details'', PyDict d)] now"
    using publish_event_stamped by (simp add: publish_device_event_def)
  then show ?thesis by (simp add: stamp_def has_key_def py_get_py_set) (simp add: py_get_def)
qed

lemma collect_Inr:
  "collect f xs = Inr ys \<Longrightarrow> list_all2 (\<lambda>x y. f x = Inr y) xs ys"
proof (induction xs arbitrary: ys)
  case Nil
  then show ?case by simp
next
  case (Cons x xs)
  then show ?case by (auto split: sum.splits)
qed

lemma event_response_fields:
  assumes "event_response v doc = Inr r"
  shows "py_get doc ''device_id'' = Some (event_device_id r)"
    and "py_get doc ''timestamp'' = Some (event_timestamp r)"
    and "py_get doc ''event_type'' = Some x \<Longrightarrow> event_type r = x"
  using assms
  by (auto simp: event_response_def Let_def split: option.splits if_splits)

lemma find_sorted_cursor:
  "find_sorted c q f n = (Inr cur, c1) \<Longrightarrow>
   cur = limit_docs n (sort_desc f (filter (matches q) (docs c)))"
  by (auto simp: find_sorted_def mongo_fault_def split: list.splits option.splits)

lemma sort_desc_sorted:
  "sorted_wrt (\<lambda>a b. bson_key (py_get b f) \<le> bson_key (py_get a f)) (sort_desc f xs)"
proof -
  have "sorted (map (\<lambda>d. bson_key (py_get d f)) (sort_key (\<lambda>d. bson_key (py_get d f)) xs))"
    by (rule sorted_sort_key)
  then have "sorted_wrt (\<lambda>a b. bson_key (py_get a f) \<le> bson_key (py_get b f))
               (sort_key (\<lambda>d. bson_key (py_get d f)) xs)"
    by (simp add: sorted_map)
  then show ?thesis by (simp add: sort_desc_def sorted_wrt_rev)
qed

lemma limit_docs_sorted: "sorted_wrt P xs \<Longrightarrow> sorted_wrt P (limit_docs n xs)"
  by (simp add: limit_docs_def sorted_wrt_take)

lemma limit_docs_length: "1 \<le> n \<Longrightarrow> int (length (limit_docs n xs)) \<le> n"
  by (simp add: limit_docs_def)

lemma limit_docs_subset: "set (limit_docs n xs) \<subseteq> set xs"
  by (auto simp: limit_docs_def dest: in_set_takeD)

lemma cursor_matches:
  "d \<in> set (limit_docs n (sort_desc f (filter (matches q) ds))) \<Longrightarrow> d \<in> set ds \<and> matches q d"
  using limit_docs_subset [of n "sort_desc f (filter (matches q) ds)"]
  by (auto simp: sort_desc_def)

lemma build_query_device:
  assumes "matches (build_query (Some n) field ty) d" and "n \<noteq> 0" and "field \<noteq> ''device_id''"
  shows "\<exists>x. py_get d ''device_id'' = Some x \<and> value_matches x (PyInt n)"
  using assms
  by (auto simp: build_query_def matches_def field_matches_def py_set_def Let_def
        split: option.splits if_splits)

lemma build_query_type:
  assumes "matches (build_query dev (field) (Some s)) d" and "s \<noteq> []"
  shows "\<exists>x. py_get d field = Some x \<and> value_matches x (PyStr s)"
  using assms
  by (auto simp: build_query_def matches_def field_matches_def py_set_def Let_def
        split: option.splits if_splits)

lemma get_events_result:
  assumes g: "get_events v c dev_id ev_type limit = (Inr rs, c')"
  obtains n cur where "checked_limit limit = Inr n" "1 \<le> n" "n \<le> 1000"
    "cur = limit_docs n (sort_desc ''timestamp''
             (filter (matches (build_query dev_id ''event_type'' ev_type)) (docs c)))"
    "list_all2 (\<lambda>d r. event_response v d = Inr r) cur rs"
proof -
  obtain n where n: "checked_limit limit = Inr n"
    using g by (cases "checked_limit limit") (auto simp: get_events_def)
  have r: "1 \<le> n \<and> n \<le> 1000"
    using n by (auto simp: checked_limit_def split: option.splits if_splits)
  have a: "EventsDAO_get_all v c dev_id ev_type n = (Inr rs, c')"
    using g n by (simp add: get_events_def)
  obtain cur c1 where f: "find_sorted c (build_query dev_id ''event_type'' ev_type)
                            ''timestamp'' n = (Inr cur, c1)"
    and k: "collect (event_response v) cur = Inr rs"
    using a by (auto simp: EventsDAO_get_all_def split: prod.splits sum.splits)
  show ?thesis
    using that [OF n _ _ find_sorted_cursor [OF f] collect_Inr [OF k]] r by simp
qed

lemma get_events_length:
  assumes g: "get_events v c dev_id ev_type limit = (Inr rs, c')"
  shows "int (length rs) \<le> (case limit of None \<Rightarrow> 100 | Some n \<Rightarrow> n)"
    and "limit = Some n \<Longrightarrow> 1 \<le> n \<and> n \<le> 1000"
proof -
  obtain m cur where m: "checked_limit limit = Inr m" "1 \<le> m"
    and cur: "cur = limit_docs m (sort_desc ''timestamp''
             (filter (matches (build_query dev_id ''event_type'' ev_type)) (docs c)))"
    and l: "list_all2 (\<lambda>d r. event_response v d = Inr r) cur rs"
    using g by (rule get_events_result)
  have "length rs = length cur" using l by (simp add: list_all2_lengthD)
  then have "int (length rs) \<le> m" using limit_docs_length [OF m(2)] cur by simp
  moreover have "m = (case limit of None \<Rightarrow> 100 | Some n \<Rightarrow> n)"
    using m(1) by (auto simp: checked_limit_def split: option.splits if_splits)
  ultimately show "int (length rs) \<le> (case limit of None \<Rightarrow> 100 | Some n \<Rightarrow> n)" by simp
  show "limit = Some n \<Longrightarrow> 1 \<le> n \<and> n \<le> 1000"
    using m(1) by (auto simp: checked_limit_def split: option.splits if_splits)
qed

lemma get_events_sorted:
  assumes g: "get_events v c dev_id ev_type limit = (Inr rs, c')"
  shows "sorted_wrt (\<lambda>a b. bson_key (Some (event_timestamp b)) \<le> bson_key (Some (event_timestamp a))) rs"
proof -
  obtain m cur where
    cur: "cur = limit_docs m (sort_desc ''timestamp''
             (filter (matches (build_query dev_id ''event_type'' ev_type)) (docs c)))"
    and l: "list_all2 (\<lambda>d r. event_response v d = Inr r) cur rs"
    using g by (rule get_events_result)
  have s: "sorted_wrt (\<lambda>a b. bson_key (py_get b ''timestamp'') \<le> bson_key (py_get a ''timestamp'')) cur"
    unfolding cur by (rule limit_docs_sorted [OF sort_desc_sorted])
  have k: "map (\<lambda>d. bson_key (py_get d ''timestamp'')) cur =
           map (\<lambda>r. bson_key (Some (event_timestamp r))) rs"
    using l by (induction cur rs rule: list_all2_induct) (auto simp: event_response_fields(2))
  have "sorted_wrt (\<lambda>x y. y \<le> x) (map (\<lambda>d. bson_key (py_get d ''timestamp'')) cur)"
    using s by (simp add: sorted_wrt_map)
  then have "sorted_wrt (\<lambda>x y. y \<le> x) (map (\<lambda>r. bson_key (Some (event_timestamp r))) rs)"
    using k by simp
  then show ?thesis by (simp add: sorted_wrt_map)
qed

lemma get_events_matching:
  assumes g: "get_events v c dev_id ev_type limit = (Inr rs, c')" and r: "r \<in> set rs"
  shows "dev_id = Some n \<Longrightarrow> n \<noteq> 0 \<Longrightarrow> value_matches (event_device_id r) (PyInt n)"
    and "ev_type = Some s \<Longrightarrow> s \<noteq> [] \<Longrightarrow> value_matches (event_type r) (PyStr s)"
proof -
  obtain m cur where
    cur: "cur = limit_docs m (sort_desc ''timestamp''
             (filter (matches (build_query dev_id ''event_type'' ev_type)) (docs c)))"
    and l: "list_all2 (\<lambda>d r. event_response v d = Inr r) cur rs"
    using g by (rule get_events_result)
  obtain i where i: "i < length rs" "r = rs ! i"
    using r by (auto simp: in_set_conv_nth)
  have len: "length cur = length rs" using l by (rule list_all2_lengthD)
  define d where "d = cur ! i"
  have d: "d \<in> set cur" "event_response v d = Inr r"
    using l i len by (simp_all add: d_def list_all2_conv_all_nth)
  have mt: "matches (build_query dev_id ''event_type'' ev_type) d"
    using cursor_matches d(1) cur by blast
  show "dev_id = Some n \<Longrightarrow> n \<noteq> 0 \<Longrightarrow> value_matches (event_device_id r) (PyInt n)"
    using build_query_device [of n "''event_type''" ev_type d] mt event_response_fields(1) [OF d(2)]
    by auto
  show "ev_type = Some s \<Longrightarrow> s \<noteq> [] \<Longrightarrow> value_matches (event_type r) (PyStr s)"
    using build_query_type [of dev_id "''event_type''" s d] mt event_response_fields(3) [OF d(2)]
    by auto
qed

lemma get_events_rejects:
  "n < 1 \<or> 1000 < n \<Longrightarrow> get_events v c dev_id ev_type (Some n) = (Inl RequestValidationError, c)"
  by (auto simp: get_events_def checked_limit_def)

text \<open>
  C7, as stated, fails in its first part: with the device id 0 as filter the endpoint
  returns the events of devices 2 and 1, none of which is an event of device 0.
\<close>

theorem get_events_only_matching_counterexample:
  "get_events by_type event_log (Some 0) None (Some 10) =
     (Inr [\<lparr>event_id = ObjectId 1, event_device_id = PyInt 2, event_type = PyStr ''deployed'',
            event_timestamp = PyStr ''2024-01-12T09:30:00'', details = PyDict []\<rparr>,
           \<lparr>event_id = ObjectId 0, event_device_id = PyInt 1, event_type = PyStr ''alert'',
            event_timestamp = PyStr ''2024-01-10T08:00:00'', details = PyDict []\<rparr>,
           \<lparr>event_id = ObjectId 2, event_device_id = PyInt 1, event_type = PyStr ''deployed'',
            event_timestamp = PyStr ''2023-11-02T17:45:10'', details = PyDict []\<rparr>],
      event_log)"
  by (simp add: store_eval event_log_def)

text \<open>
  C7, amended. When the events endpoint returns a list, the list has at most \<open>limit\<close>
  elements (100 when no limit is given) and never more than 1000, it is ordered by
  timestamp from the greatest to the least in the store's order of values, and each of its
  events matches every filter whose value is truthy: a device id other than 0 and a type
  other than the empty string. A filter of 0 or of the empty string is no filter. A limit
  outside 1 to 1000 is refused at the endpoint and the store is not queried.
\<close>

theorem get_events_bounded_sorted_filtered:
  "(get_events v c dev_id ev_type limit = (Inr rs, c') \<longrightarrow>
      int (length rs) \<le> (case limit of None \<Rightarrow> 100 | Some n \<Rightarrow> n) \<and>
      length rs \<le> 1000 \<and>
      sorted_wrt (\<lambda>a b. bson_key (Some (event_timestamp b)) \<le> bson_key (Some (event_timestamp a)))
        rs \<and>
      (\<forall>r\<in>set rs.
         (\<forall>n. dev_id = Some n \<and> n \<noteq> 0 \<longrightarrow> value_matches (event_device_id r) (PyInt n)) \<and>
         (\<forall>s. ev_type = Some s \<and> s \<noteq> [] \<longrightarrow> value_matches (event_type r) (PyStr s)))) \<and>
   (m < 1 \<or> 1000 < m \<longrightarrow>
      get_events v c dev_id ev_type (Some m) = (Inl RequestValidationError, c))"
proof -
  have a: "int (length rs) \<le> (case limit of None \<Rightarrow> 100 | Some n \<Rightarrow> n) \<and>
      length rs \<le> 1000 \<and>
      sorted_wrt (\<lambda>a b. bson_key (Some (event_timestamp b)) \<le> bson_key (Some (event_timestamp a)))
        rs \<and>
      (\<forall>r\<in>set rs.
         (\<forall>n. dev_id = Some n \<and> n \<noteq> 0 \<longrightarrow> value_matches (event_device_id r) (PyInt n)) \<and>
         (\<forall>s. ev_type = Some s \<and> s \<noteq> [] \<longrightarrow> value_matches (event_type r) (PyStr s)))"
    if g: "get_events v c dev_id ev_type limit = (Inr rs, c')"
  proof -
    have l: "int (length rs) \<le> (case limit of None \<Rightarrow> 100 | Some n \<Rightarrow> n)"
      using get_events_length(1) [OF g] .
    have "(case limit of None \<Rightarrow> 100 | Some n \<Rightarrow> n) \<le> (1000::int)"
      using get_events_length(2) [OF g] by (cases limit) auto
    then have k: "length rs \<le> 1000" using l by linarith
    show ?thesis
      using l k get_events_sorted [OF g] get_events_matching [OF g] by blast
  qed
  show ?thesis using a get_events_rejects [of m v c dev_id ev_type] by blast
qed

theorem get_events_bounded_sorted_filtered_witness:
  "get_events by_type event_log (Some 1) (Some ''deployed'') (Some 10) =
     (Inr [\<lparr>event_id = ObjectId 2, event_device_id = PyInt 1, event_type = PyStr ''deployed'',
            event_timestamp = PyStr ''2023-11-02T17:45:10'', details = PyDict []\<rparr>],
      event_log) \<and>
   value_matches (PyInt 1) (PyInt 1) \<and> value_matches (PyStr ''deployed'') (PyStr ''deployed'') \<and>
   get_events by_type event_log (Some 1) (Some ''deployed'') (Some 0) =
     (Inl RequestValidationError, event_log)"
proof -
  have e: "get_events by_type event_log (Some 1) (Some ''deployed'') (Some 10) =
     (Inr [\<lparr>event_id = ObjectId 2, event_device_id = PyInt 1, event_type = PyStr ''deployed'',
            event_timestamp = PyStr ''2023-11-02T17:45:10'', details = PyDict []\<rparr>],
      event_log)"
    by (simp add: store_eval event_log_def)
  show ?thesis
    using e get_events_bounded_sorted_filtered
      [of by_type event_log "Some 1" "Some ''deployed''" "Some 10"
          "[\<lparr>event_id = ObjectId 2, event_device_id = PyInt 1, event_type = PyStr ''deployed'',
             event_timestamp = PyStr ''2023-11-02T17:45:10'', details = PyDict []\<rparr>]"
          event_log 0]
    by simp
qed

subsection \<open>Event consumer\<close>

lemma get_device_type_frame:
  assumes "get_device_type w d = (r, w')"
  shows "\<exists>acts. actions w' = actions w @ acts \<and> \<not> list_ex is_ack acts \<and> \<not> list_ex is_insert acts"
    and "telemetry_collection w' = telemetry_collection w"
    and "events_collection w' = events_collection w"
    and "socketio w' = socketio w"
    and "socketio_callback w' = socketio_callback w"
  using assms
  by (auto simp: get_device_type_def acted_def logged_def is_ack_def is_insert_def Let_def
       split: if_splits option.splits http_outcome.splits)

lemma enrich_frame:
  assumes "enrich w p = (r, w')"
  shows "\<exists>acts. actions w' = actions w @ acts \<and> \<not> list_ex is_ack acts \<and> \<not> list_ex is_insert acts"
    and "telemetry_collection w' = telemetry_collection w"
    and "events_collection w' = events_collection w"
    and "socketio w' = socketio w"
    and "socketio_callback w' = socketio_callback w"
proof -
  let ?dev = "device_id_of p"
  show "\<exists>acts. actions w' = actions w @ acts \<and> \<not> list_ex is_ack acts \<and> \<not> list_ex is_insert acts"
  proof (cases "truthy ?dev")
    case False
    then show ?thesis using assms by (intro exI [of _ "[]"]) (simp add: enrich_def)
  next
    case True
    obtain r0 w0 where g: "get_device_type w ?dev = (r0, w0)" by (cases "get_device_type w ?dev")
    have "w' = w0" using assms True g by (cases r0) (simp_all add: enrich_def)
    then show ?thesis using get_device_type_frame(1) [OF g] by simp
  qed
  have k: "w' = w \<or> (\<exists>r0. get_device_type w ?dev = (r0, w'))"
  proof (cases "truthy ?dev")
    case False
    then show ?thesis using assms by (simp add: enrich_def)
  next
    case True
    obtain r0 w0 where g: "get_device_type w ?dev = (r0, w0)" by (cases "get_device_type w ?dev")
    have "w' = w0" using assms True g by (cases r0) (simp_all add: enrich_def)
    then show ?thesis using g by auto
  qed
  show "telemetry_collection w' = telemetry_collection w"
    using k get_device_type_frame(2) by auto
  show "events_collection w' = events_collection w"
    using k get_device_type_frame(3) by auto
  show "socketio w' = socketio w"
    using k get_device_type_frame(4) by auto
  show "socketio_callback w' = socketio_callback w"
    using k get_device_type_frame(5) by auto
qed

lemma emit_actions:
  "\<exists>acts. actions (emit w ev p) = actions w @ acts \<and> \<not> list_ex is_ack acts \<and> \<not> list_ex is_insert acts"
  by (auto simp: emit_def acted_def is_ack_def is_insert_def Let_def)

lemma telemetry_try_cases:
  assumes t: "telemetry_try w body now = (r, w')"
  obtains (undecodable) "body = None" "r = Some JSONDecodeError" "w' = w"
  | (not_a_dict) decoded where "body = Some decoded" "as_dict decoded = None"
      "r = Some AttributeError" "w' = w"
  | (enrich_raised) decoded payload e where "body = Some decoded" "as_dict decoded = Some payload"
      "enrich w (flatten_data (default_timestamp payload now)) = (Inl e, w')" "r = Some e"
  | (insert_raised) decoded payload enriched w1 e stored c where
      "body = Some decoded" "as_dict decoded = Some payload"
      "enrich w (flatten_data (default_timestamp payload now)) = (Inr enriched, w1)"
      "TelemetryDAO_insert (telemetry_collection w1) enriched now = (Inl e, stored, c)"
      "r = Some e" "w' = (acted w1 (InsertTelemetry enriched))\<lparr>telemetry_collection := c\<rparr>"
  | (stored) decoded payload enriched w1 oid stored c where
      "body = Some decoded" "as_dict decoded = Some payload"
      "enrich w (flatten_data (default_timestamp payload now)) = (Inr enriched, w1)"
      "TelemetryDAO_insert (telemetry_collection w1) enriched now = (Inr oid, stored, c)"
      "r = None"
      "w' = logged (emit ((acted w1 (InsertTelemetry enriched))\<lparr>telemetry_collection := c\<rparr>)
                     ''telemetry'' stored) INFO ''Telemetry stored''"
proof (cases body)
  case None
  then show ?thesis using t undecodable by (simp add: telemetry_try_def)
next
  case (Some decoded)
  show ?thesis
  proof (cases "as_dict decoded")
    case None
    then show ?thesis using t Some not_a_dict by (simp add: telemetry_try_def)
  next
    case d: (Some payload)
    obtain r1 w1 where e: "enrich w (flatten_data (default_timestamp payload now)) = (r1, w1)"
      by (cases "enrich w (flatten_data (default_timestamp payload now))")
    show ?thesis
    proof (cases r1)
      case (Inl x)
      then show ?thesis using t Some d e enrich_raised by (simp add: telemetry_try_def)
    next
      case (Inr enriched)
      obtain r2 st c where i: "TelemetryDAO_insert (telemetry_collection w1) enriched now = (r2, st, c)"
        by (cases "TelemetryDAO_insert (telemetry_collection w1) enriched now")
      show ?thesis
      proof (cases r2)
        case (Inl x)
        then show ?thesis
          using t Some d e Inr i insert_raised [of decoded payload enriched w1 x st c]
          by (simp add: telemetry_try_def acted_def Let_def)
      next
        case r2': (Inr oid)
        then show ?thesis
          using t Some d e Inr i stored [of decoded payload enriched w1 oid st c]
          by (simp add: telemetry_try_def acted_def Let_def)
      qed
    qed
  qed
qed

lemma device_event_try_cases:
  assumes t: "device_event_try w body now = (r, w')"
  obtains (undecodable) "body = None" "r = Some JSONDecodeError" "w' = w"
  | (not_a_dict) decoded where "body = Some decoded" "as_dict decoded = None"
      "r = Some AttributeError" "w' = w"
  | (insert_raised) decoded payload e stored c where
      "body = Some decoded" "as_dict decoded = Some payload"
      "EventsDAO_insert (events_collection w) (default_timestamp payload now) now = (Inl e, stored, c)"
      "r = Some e"
      "w' = (acted w (InsertEvent (default_timestamp payload now)))\<lparr>events_collection := c\<rparr>"
  | (stored) decoded payload oid stored c where
      "body = Some decoded" "as_dict decoded = Some payload"
      "EventsDAO_insert (events_collection w) (default_timestamp payload now) now = (Inr oid, stored, c)"
      "r = None"
      "w' = logged (emit ((acted w (InsertEvent (default_timestamp payload now)))
                             \<lparr>events_collection := c\<rparr>)
                     ''device_event'' stored) INFO ''Device event stored''"
proof (cases body)
  case None
  then show ?thesis using t undecodable by (simp add: device_event_try_def)
next
  case (Some decoded)
  show ?thesis
  proof (cases "as_dict decoded")
    case None
    then show ?thesis using t Some not_a_dict by (simp add: device_event_try_def)
  next
    case d: (Some payload)
    obtain r2 st c where
      i: "EventsDAO_insert (events_collection w) (default_timestamp payload now) now = (r2, st, c)"
      by (cases "EventsDAO_insert (events_collection w) (default_timestamp payload now) now")
    show ?thesis
    proof (cases r2)
      case (Inl x)
      then show ?thesis
        using t Some d i insert_raised [of decoded payload x st c]
        by (simp add: device_event_try_def acted_def Let_def)
    next
      case (Inr oid)
      then show ?thesis
        using t Some d i stored [of decoded payload oid st c]
        by (simp add: device_event_try_def acted_def Let_def)
    qed
  qed
qed

lemma new_actions_append: "actions w' = actions w @ acts \<Longrightarrow> new_actions w w' = acts"
  by (simp add: new_actions_def)

lemma telemetry_try_actions:
  assumes t: "telemetry_try w body now = (r, w')"
  shows "\<exists>acts. actions w' = actions w @ acts \<and> \<not> list_ex is_ack acts"
  using t
proof (cases rule: telemetry_try_cases)
  case undecodable
  then show ?thesis by (intro exI [of _ "[]"]) simp
next
  case (not_a_dict decoded)
  then show ?thesis by (intro exI [of _ "[]"]) simp
next
  case (enrich_raised decoded payload e)
  then show ?thesis using enrich_frame(1) [OF enrich_raised(3)] by blast
next
  case (insert_raised decoded payload enriched w1 e stored c)
  obtain a where a: "actions w1 = actions w @ a" "\<not> list_ex is_ack a"
    using enrich_frame(1) [OF insert_raised(3)] by blast
  show ?thesis using a insert_raised(6)
    by (intro exI [of _ "a @ [InsertTelemetry enriched]"]) (simp add: acted_def is_ack_def)
next
  case (stored decoded payload enriched w1 oid st c)
  obtain a where a: "actions w1 = actions w @ a" "\<not> list_ex is_ack a"
    using enrich_frame(1) [OF stored(3)] by blast
  obtain b where b: "actions (emit ((acted w1 (InsertTelemetry enriched))\<lparr>telemetry_collection := c\<rparr>)
                       ''telemetry'' st) =
                     actions ((acted w1 (InsertTelemetry enriched))\<lparr>telemetry_collection := c\<rparr>) @ b"
      "\<not> list_ex is_ack b"
    using emit_actions by blast
  show ?thesis using a b stored(6)
    by (intro exI [of _ "a @ [InsertTelemetry enriched] @ b"])
       (simp add: acted_def logged_def is_ack_def)
qed

lemma device_event_try_actions:
  assumes t: "device_event_try w body now = (r, w')"
  shows "\<exists>acts. actions w' = actions w @ acts \<and> \<not> list_ex is_ack acts"
  using t
proof (cases rule: device_event_try_cases)
  case undecodable
  then show ?thesis by (intro exI [of _ "[]"]) simp
next
  case (not_a_dict decoded)
  then show ?thesis by (intro exI [of _ "[]"]) simp
next
  case (insert_raised decoded payload e stored c)
  then show ?thesis
    by (intro exI [of _ "[InsertEvent (default_timestamp payload now)]"])
       (simp add: acted_def is_ack_def)
next
  case (stored decoded payload oid st c)
  obtain b where b:
      "actions (emit ((acted w (InsertEvent (default_timestamp payload now)))
                        \<lparr>events_collection := c\<rparr>) ''device_event'' st) =
       actions ((acted w (InsertEvent (default_timestamp payload now)))\<lparr>events_collection := c\<rparr>) @ b"
      "\<not> list_ex is_ack b"
    using emit_actions by blast
  show ?thesis using b stored(5)
    by (intro exI [of _ "[InsertEvent (default_timestamp payload now)] @ b"])
       (simp add: acted_def logged_def is_ack_def)
qed

lemma on_telemetry_actions:
  "\<exists>acts. new_actions w (on_telemetry w tag body now) = acts @ [Ack tag] \<and> \<not> list_ex is_ack acts"
proof -
  obtain r w1 where t: "telemetry_try w body now = (r, w1)" by (cases "telemetry_try w body now")
  obtain acts where a: "actions w1 = actions w @ acts" "\<not> list_ex is_ack acts"
    using telemetry_try_actions [OF t] by blast
  have "actions (on_telemetry w tag body now) = actions w @ acts @ [Ack tag]"
    using t a(1) by (cases r) (simp_all add: on_telemetry_def acted_def logged_def)
  then show ?thesis using a(2) new_actions_append by (intro exI [of _ acts]) simp
qed

lemma on_device_event_actions:
  "\<exists>acts. new_actions w (on_device_event w tag body now) = acts @ [Ack tag] \<and>
          \<not> list_ex is_ack acts"
proof -
  obtain r w1 where t: "device_event_try w body now = (r, w1)"
    by (cases "device_event_try w body now")
  obtain acts where a: "actions w1 = actions w @ acts" "\<not> list_ex is_ack acts"
    using device_event_try_actions [OF t] by blast
  have "actions (on_device_event w tag body now) = actions w @ acts @ [Ack tag]"
    using t a(1) by (cases r) (simp_all add: on_device_event_def acted_def logged_def)
  then show ?thesis using a(2) new_actions_append by (intro exI [of _ acts]) simp
qed

lemma malformed_acknowledged:
  "on_telemetry w tag None now =
     acted (logged w ERROR ''Telemetry consumer error'') (Ack tag)"
  "on_device_event w tag None now =
     acted (logged w ERROR ''Device event consumer error'') (Ack tag)"
  by (simp_all add: on_telemetry_def on_device_event_def telemetry_try_def device_event_try_def)

lemma get_device_type_hashable:
  "hashable d \<Longrightarrow> \<exists>t w1. get_device_type w d = (Inr t, w1)"
  by (auto simp: get_device_type_def Let_def split: option.splits http_outcome.splits)

lemma enrich_returns:
  assumes "\<not> truthy (device_id_of p) \<or> hashable (device_id_of p)"
  shows "\<exists>q w1. enrich w p = (Inr q, w1)"
proof (cases "truthy (device_id_of p)")
  case False
  then show ?thesis by (simp add: enrich_def)
next
  case True
  then obtain t w1 where "get_device_type w (device_id_of p) = (Inr t, w1)"
    using assms get_device_type_hashable by blast
  then show ?thesis using True by (simp add: enrich_def)
qed

lemma device_event_insert_attempted:
  assumes "as_dict decoded = Some payload"
  shows "InsertEvent (default_timestamp payload now) \<in>
           set (butlast (new_actions w (on_device_event w tag (Some decoded) now)))"
proof -
  obtain r w1 where t: "device_event_try w (Some decoded) now = (r, w1)"
    by (cases "device_event_try w (Some decoded) now")
  have "\<exists>b. actions w1 = actions w @ [InsertEvent (default_timestamp payload now)] @ b"
    using t
  proof (cases rule: device_event_try_cases)
    case undecodable
    then show ?thesis by simp
  next
    case (not_a_dict d)
    then show ?thesis using assms by simp
  next
    case (insert_raised d p e stored c)
    then show ?thesis using assms by (intro exI [of _ "[]"]) (simp add: acted_def)
  next
    case (stored d p oid st c)
    obtain b where "actions (emit ((acted w (InsertEvent (default_timestamp p now)))
                        \<lparr>events_collection := c\<rparr>) ''device_event'' st) =
       actions ((acted w (InsertEvent (default_timestamp p now)))\<lparr>events_collection := c\<rparr>) @ b"
      using emit_actions by blast
    then show ?thesis using stored assms
      by (intro exI [of _ b]) (simp add: acted_def logged_def)
  qed
  then obtain b where b: "actions w1 = actions w @ [InsertEvent (default_timestamp payload now)] @ b"
    by blast
  have "actions (on_device_event w tag (Some decoded) now) =
          actions w @ ([InsertEvent (default_timestamp payload now)] @ b) @ [Ack tag]"
    using t b by (cases r) (simp_all add: on_device_event_def acted_def logged_def)
  then have "new_actions w (on_device_event w tag (Some decoded) now) =
               ([InsertEvent (default_timestamp payload now)] @ b) @ [Ack tag]"
    by (rule new_actions_append)
  then show ?thesis by (simp add: butlast_append)
qed

lemma telemetry_insert_attempted:
  assumes d: "as_dict decoded = Some payload"
    and h: "\<not> truthy (device_id_of (flatten_data (default_timestamp payload now))) \<or>
            hashable (device_id_of (flatten_data (default_timestamp payload now)))"
  shows "list_ex is_insert (butlast (new_actions w (on_telemetry w tag (Some decoded) now)))"
proof -
  obtain r w1 where t: "telemetry_try w (Some decoded) now = (r, w1)"
    by (cases "telemetry_try w (Some decoded) now")
  obtain q w0 where q: "enrich w (flatten_data (default_timestamp payload now)) = (Inr q, w0)"
    using enrich_returns [OF h] by blast
  have "\<exists>a. actions w1 = actions w @ a \<and> list_ex is_insert a"
    using t
  proof (cases rule: telemetry_try_cases)
    case undecodable
    then show ?thesis by simp
  next
    case (not_a_dict dd)
    then show ?thesis using d by simp
  next
    case (enrich_raised dd p e)
    then show ?thesis using d q by simp
  next
    case (insert_raised dd p enriched w2 e stored c)
    obtain a where "actions w2 = actions w @ a"
      using enrich_frame(1) [OF insert_raised(3)] by blast
    then show ?thesis using insert_raised(6)
      by (intro exI [of _ "a @ [InsertTelemetry enriched]"]) (simp add: acted_def is_insert_def)
  next
    case (stored dd p enriched w2 oid st c)
    obtain a where a: "actions w2 = actions w @ a"
      using enrich_frame(1) [OF stored(3)] by blast
    obtain b where "actions (emit ((acted w2 (InsertTelemetry enriched))\<lparr>telemetry_collection := c\<rparr>)
                       ''telemetry'' st) =
                     actions ((acted w2 (InsertTelemetry enriched))\<lparr>telemetry_collection := c\<rparr>) @ b"
      using emit_actions by blast
    then show ?thesis using a stored(6)
      by (intro exI [of _ "a @ [InsertTelemetry enriched] @ b"])
         (simp add: acted_def logged_def is_insert_def)
  qed
  then obtain a where a: "actions w1 = actions w @ a" "list_ex is_insert a" by blast
  have "actions (on_telemetry w tag (Some decoded) now) = actions w @ a @ [Ack tag]"
    using t a(1) by (cases r) (simp_all add: on_telemetry_def acted_def logged_def)
  then have "new_actions w (on_telemetry w tag (Some decoded) now) = a @ [Ack tag]"
    by (rule new_actions_append)
  then show ?thesis using a(2) by (simp add: butlast_append)
qed

lemma not_object_acknowledged:
  assumes "as_dict decoded = None"
  shows "on_telemetry w tag (Some decoded) now =
           acted (logged w ERROR ''Telemetry consumer error'') (Ack tag)"
    and "on_device_event w tag (Some decoded) now =
           acted (logged w ERROR ''Device event consumer error'') (Ack tag)"
  using assms
  by (simp_all add: on_telemetry_def on_device_event_def telemetry_try_def device_event_try_def)

lemma unhashable_acknowledged:
  assumes "as_dict decoded = Some payload"
    and "truthy (device_id_of (flatten_data (default_timestamp payload now)))"
    and "\<not> hashable (device_id_of (flatten_data (default_timestamp payload now)))"
  shows "on_telemetry w tag (Some decoded) now =
           acted (logged w ERROR ''Telemetry consumer error'') (Ack tag)"
  using assms
  by (simp add: on_telemetry_def telemetry_try_def enrich_def get_device_type_def Let_def)

text \<open>
  C4, amended. Whatever the message is, each handler adds exactly one acknowledgment to
  the consumer's actions, for the delivery tag of the message, and adds it last: every
  attempt to persist comes before it and none after. A body that decodes to a JSON object
  is handed to the store before the acknowledgment: always by the device-event handler,
  and by the telemetry handler whenever the enrichment returns, which it does for every
  device id that is falsy or hashable. Every other message is logged as an error and
  acknowledged without an attempt to persist it, and leaves everything else as it was, so
  the next message meets the consumer it would have met without it: a body that does not
  decode, a body that decodes to something other than an object, and in the telemetry
  handler an object whose device id is truthy and unhashable.
\<close>

theorem ack_once_after_persistence:
  "new_actions w (on_telemetry w tag body now) \<noteq> [] \<and>
   last (new_actions w (on_telemetry w tag body now)) = Ack tag \<and>
   \<not> list_ex is_ack (butlast (new_actions w (on_telemetry w tag body now))) \<and>
   new_actions w (on_device_event w tag body now) \<noteq> [] \<and>
   last (new_actions w (on_device_event w tag body now)) = Ack tag \<and>
   \<not> list_ex is_ack (butlast (new_actions w (on_device_event w tag body now))) \<and>
   on_telemetry w tag None now = acted (logged w ERROR ''Telemetry consumer error'') (Ack tag) \<and>
   on_device_event w tag None now =
     acted (logged w ERROR ''Device event consumer error'') (Ack tag) \<and>
   (as_dict decoded = Some payload \<longrightarrow>
      InsertEvent (default_timestamp payload now) \<in>
        set (butlast (new_actions w (on_device_event w tag (Some decoded) now)))) \<and>
   (as_dict decoded = Some payload \<and>
    (\<not> truthy (device_id_of (flatten_data (default_timestamp payload now))) \<or>
     hashable (device_id_of (flatten_data (default_timestamp payload now)))) \<longrightarrow>
      list_ex is_insert (butlast (new_actions w (on_telemetry w tag (Some decoded) now)))) \<and>
   (as_dict decoded = None \<longrightarrow>
      on_telemetry w tag (Some decoded) now =
        acted (logged w ERROR ''Telemetry consumer error'') (Ack tag) \<and>
      on_device_event w tag (Some decoded) now =
        acted (logged w ERROR ''Device event consumer error'') (Ack tag)) \<and>
   (as_dict decoded = Some payload \<and>
    truthy (device_id_of (flatten_data (default_timestamp payload now))) \<and>
    \<not> hashable (device_id_of (flatten_data (default_timestamp payload now))) \<longrightarrow>
      on_telemetry w tag (Some decoded) now =
        acted (logged w ERROR ''Telemetry consumer error'') (Ack tag))"
proof -
  obtain a where a: "new_actions w (on_telemetry w tag body now) = a @ [Ack tag]"
      "\<not> list_ex is_ack a"
    using on_telemetry_actions by blast
  obtain b where b: "new_actions w (on_device_event w tag body now) = b @ [Ack tag]"
      "\<not> list_ex is_ack b"
    using on_device_event_actions by blast
  have t: "new_actions w (on_telemetry w tag body now) \<noteq> [] \<and>
      last (new_actions w (on_telemetry w tag body now)) = Ack tag \<and>
      \<not> list_ex is_ack (butlast (new_actions w (on_telemetry w tag body now)))"
    using a by simp
  have e: "new_actions w (on_device_event w tag body now) \<noteq> [] \<and>
      last (new_actions w (on_device_event w tag body now)) = Ack tag \<and>
      \<not> list_ex is_ack (butlast (new_actions w (on_device_event w tag body now)))"
    using b by simp
  have i: "as_dict decoded = Some payload \<longrightarrow>
      InsertEvent (default_timestamp payload now) \<in>
        set (butlast (new_actions w (on_device_event w tag (Some decoded) now)))"
    using device_event_insert_attempted by blast
  have j: "as_dict decoded = Some payload \<and>
    (\<not> truthy (device_id_of (flatten_data (default_timestamp payload now))) \<or>
     hashable (device_id_of (flatten_data (default_timestamp payload now)))) \<longrightarrow>
      list_ex is_insert (butlast (new_actions w (on_telemetry w tag (Some decoded) now)))"
    using telemetry_insert_attempted by blast
  have k: "as_dict decoded = None \<longrightarrow>
      on_telemetry w tag (Some decoded) now =
        acted (logged w ERROR ''Telemetry consumer error'') (Ack tag) \<and>
      on_device_event w tag (Some decoded) now =
        acted (logged w ERROR ''Device event consumer error'') (Ack tag)"
    using not_object_acknowledged by blast
  have l: "as_dict decoded = Some payload \<and>
    truthy (device_id_of (flatten_data (default_timestamp payload now))) \<and>
    \<not> hashable (device_id_of (flatten_data (default_timestamp payload now))) \<longrightarrow>
      on_telemetry w tag (Some decoded) now =
        acted (logged w ERROR ''Telemetry consumer error'') (Ack tag)"
    using unhashable_acknowledged by blast
  show ?thesis using t e i j k l malformed_acknowledged by blast
qed

lemmas payload_eval =
  device_id_of_def flatten_data_def default_timestamp_def py_get_def py_set_def py_pop_def
  py_update_def as_dict_def has_key_def isoformat_noon

lemmas consumer_eval =
  on_telemetry_def telemetry_try_def on_device_event_def device_event_try_def enrich_def
  get_device_type_def emit_def acted_def logged_def TelemetryDAO_insert_def EventsDAO_insert_def
  insert_one_def mongo_fault_def queue_broadcast_def put_nowait_def full_def Queue_def
  SocketIOService_init_def empty_collection_def new_actions_def Let_def

lemma get_device_type_fallback:
  assumes "hashable d" "map_of (device_type_cache w) (py_key d) = None"
    "lookup_fails (registry w d)"
  shows "\<exists>msg. get_device_type w d =
           (Inr (PyStr ''other''), logged (acted w (HttpGet d)) WARNING msg)"
  using assms
  by (auto simp: get_device_type_def lookup_fails_def acted_def Let_def
        split: http_outcome.splits option.splits)

lemma enrich_fallback:
  assumes "truthy (device_id_of p)" "hashable (device_id_of p)"
    "map_of (device_type_cache w) (py_key (device_id_of p)) = None"
    "lookup_fails (registry w (device_id_of p))"
  shows "\<exists>msg. enrich w p =
           (Inr (py_set p ''device_type'' (PyStr ''other'')),
            logged (acted w (HttpGet (device_id_of p))) WARNING msg)"
proof -
  obtain msg where "get_device_type w (device_id_of p) =
      (Inr (PyStr ''other''), logged (acted w (HttpGet (device_id_of p))) WARNING msg)"
    using get_device_type_fallback [OF assms(2,3,4)] by blast
  then show ?thesis using assms(1) by (intro exI [of _ msg]) (simp add: enrich_def)
qed


lemma dao_insert_field:
  assumes "EventsDAO_insert c data now = (Inr oid, data', c') \<or>
           TelemetryDAO_insert c data now = (Inr oid, data', c')"
    and "k \<noteq> ''_id''" and "k \<noteq> ''timestamp''"
  shows "py_get data' k = py_get data k"
proof -
  let ?d = "if \<not> has_key data ''timestamp''
            then py_set data ''timestamp'' (PyStr (isoformat now)) else data"
  have i: "insert_one c ?d = (Inr oid, data', c')"
    using assms(1) by (auto simp: EventsDAO_insert_def TelemetryDAO_insert_def Let_def)
  have "py_get data' k = py_get ?d k"
    using insert_one_stored(3) [OF i assms(2)] .
  then show ?thesis using assms(3) by (simp add: py_get_py_set)
qed

lemma on_telemetry_fallback:
  assumes d: "as_dict decoded = Some payload"
    and p: "p = flatten_data (default_timestamp payload now)"
    and h: "truthy (device_id_of p)" "hashable (device_id_of p)"
      "map_of (device_type_cache w) (py_key (device_id_of p)) = None"
      "lookup_fails (registry w (device_id_of p))"
  shows "take 2 (new_actions w (on_telemetry w tag (Some decoded) now)) =
           [HttpGet (device_id_of p), InsertTelemetry (py_set p ''device_type'' (PyStr ''other''))]"
    and "TelemetryDAO_insert (telemetry_collection w)
           (py_set p ''device_type'' (PyStr ''other'')) now = (Inr oid, stored, c) \<Longrightarrow>
         telemetry_collection (on_telemetry w tag (Some decoded) now) = c \<and>
         new_actions w (on_telemetry w tag (Some decoded) now) =
           [HttpGet (device_id_of p), InsertTelemetry (py_set p ''device_type'' (PyStr ''other''))] @
           (if socketio_callback w
            then [Broadcast ''telemetry'' (filter (\<lambda>kv. fst kv \<noteq> ''_id'') stored)] else []) @
           [Ack tag] \<and>
         socketio (on_telemetry w tag (Some decoded) now) =
           (if socketio_callback w
            then queue_broadcast (socketio w) ''telemetry'' (filter (\<lambda>kv. fst kv \<noteq> ''_id'') stored)
            else socketio w)"
proof -
  let ?q = "py_set p ''device_type'' (PyStr ''other'')"
  obtain msg where e: "enrich w p = (Inr ?q, logged (acted w (HttpGet (device_id_of p))) WARNING msg)"
    using enrich_fallback [OF h] by blast
  let ?w1 = "logged (acted w (HttpGet (device_id_of p))) WARNING msg"
  have c1: "telemetry_collection ?w1 = telemetry_collection w"
    by (simp add: logged_def acted_def)
  obtain r st c0 where i: "TelemetryDAO_insert (telemetry_collection w) ?q now = (r, st, c0)"
    by (cases "TelemetryDAO_insert (telemetry_collection w) ?q now")
  show "take 2 (new_actions w (on_telemetry w tag (Some decoded) now)) =
           [HttpGet (device_id_of p), InsertTelemetry ?q]"
    using d p e i c1
    by (cases r)
       (simp_all add: on_telemetry_def telemetry_try_def new_actions_def emit_def acted_def
          logged_def Let_def)
  show "telemetry_collection (on_telemetry w tag (Some decoded) now) = c \<and>
         new_actions w (on_telemetry w tag (Some decoded) now) =
           [HttpGet (device_id_of p), InsertTelemetry ?q] @
           (if socketio_callback w
            then [Broadcast ''telemetry'' (filter (\<lambda>kv. fst kv \<noteq> ''_id'') stored)] else []) @
           [Ack tag] \<and>
         socketio (on_telemetry w tag (Some decoded) now) =
           (if socketio_callback w
            then queue_broadcast (socketio w) ''telemetry'' (filter (\<lambda>kv. fst kv \<noteq> ''_id'') stored)
            else socketio w)"
    if s: "TelemetryDAO_insert (telemetry_collection w) ?q now = (Inr oid, stored, c)"
    using d p e s c1
    by (simp add: on_telemetry_def telemetry_try_def new_actions_def emit_def acted_def
          logged_def Let_def)
qed

text \<open>
  C4, as stated, fails. A body that decodes, to a list, is acknowledged by both handlers
  with no attempt to persist it; and a telemetry message whose device id is a list is
  acknowledged by the telemetry handler with no attempt to persist it and nothing stored,
  while the device-event handler stores the same message.
\<close>

theorem ack_without_persistence_counterexample:
  "new_actions station (on_telemetry station 5 (Some (PyList [PyInt 1, PyInt 2])) noon) =
     [Ack 5] \<and>
   new_actions station (on_device_event station 5 (Some (PyList [PyInt 1, PyInt 2])) noon) =
     [Ack 5] \<and>
   new_actions station
     (on_telemetry station 5
        (Some (PyDict [(''device_id'', PyList [PyInt 1]), (''temperature'', PyInt 21)])) noon) =
     [Ack 5] \<and>
   telemetry_collection
     (on_telemetry station 5
        (Some (PyDict [(''device_id'', PyList [PyInt 1]), (''temperature'', PyInt 21)])) noon) =
     empty_collection \<and>
   new_actions station
     (on_device_event station 5
        (Some (PyDict [(''device_id'', PyList [PyInt 1]), (''temperature'', PyInt 21)])) noon) =
     [InsertEvent [(''device_id'', PyList [PyInt 1]), (''temperature'', PyInt 21),
                   (''timestamp'', PyStr ''2024-01-15T12:00:00'')],
      Broadcast ''device_event''
        [(''device_id'', PyList [PyInt 1]), (''temperature'', PyInt 21),
         (''timestamp'', PyStr ''2024-01-15T12:00:00'')],
      Ack 5]"
  by (simp add: consumer_eval payload_eval station_def)

theorem ack_once_after_persistence_witness:
  "as_dict (PyDict unknown_reading) = Some unknown_reading \<and>
   hashable (device_id_of (flatten_data (default_timestamp unknown_reading noon))) \<and>
   last (new_actions station (on_telemetry station 5 (Some (PyDict unknown_reading)) noon)) = Ack 5 \<and>
   list_ex is_insert
     (butlast (new_actions station (on_telemetry station 5 (Some (PyDict unknown_reading)) noon))) \<and>
   InsertEvent (default_timestamp unknown_reading noon) \<in>
     set (butlast (new_actions station
                     (on_device_event station 5 (Some (PyDict unknown_reading)) noon))) \<and>
   new_actions station (on_telemetry station 5 None noon) = [Ack 5] \<and>
   as_dict (PyList [PyInt 1, PyInt 2]) = None \<and>
   new_actions station (on_telemetry station 5 (Some (PyList [PyInt 1, PyInt 2])) noon) =
     [Ack 5] \<and>
   new_actions station (on_device_event station 5 (Some (PyList [PyInt 1, PyInt 2])) noon) =
     [Ack 5] \<and>
   as_dict (PyDict [(''device_id'', PyList [PyInt 1])]) = Some [(''device_id'', PyList [PyInt 1])] \<and>
   truthy (device_id_of (flatten_data (default_timestamp [(''device_id'', PyList [PyInt 1])] noon))) \<and>
   \<not> hashable
       (device_id_of (flatten_data (default_timestamp [(''device_id'', PyList [PyInt 1])] noon))) \<and>
   new_actions station
     (on_telemetry station 5 (Some (PyDict [(''device_id'', PyList [PyInt 1])])) noon) = [Ack 5]"
proof -
  have h1: "as_dict (PyDict unknown_reading) = Some unknown_reading"
    "as_dict (PyList [PyInt 1, PyInt 2]) = None"
    "as_dict (PyDict [(''device_id'', PyList [PyInt 1])]) = Some [(''device_id'', PyList [PyInt 1])]"
    by (simp_all add: as_dict_def)
  have h2: "hashable (device_id_of (flatten_data (default_timestamp unknown_reading noon)))"
    by (simp add: payload_eval unknown_reading_def)
  have h3: "truthy (device_id_of
                (flatten_data (default_timestamp [(''device_id'', PyList [PyInt 1])] noon)))"
    "\<not> hashable (device_id_of
                (flatten_data (default_timestamp [(''device_id'', PyList [PyInt 1])] noon)))"
    by (simp_all add: payload_eval)
  have m: "new_actions station (acted (logged station ERROR msg) (Ack 5)) = [Ack 5]" for msg
    by (simp add: new_actions_def acted_def logged_def)
  show ?thesis
    using h1 h2 h3 m
      ack_once_after_persistence
        [of station 5 "Some (PyDict unknown_reading)" noon "PyDict unknown_reading"
            unknown_reading]
      ack_once_after_persistence
        [of station 5 None noon "PyList [PyInt 1, PyInt 2]" "[]"]
      ack_once_after_persistence
        [of station 5 None noon "PyDict [(''device_id'', PyList [PyInt 1])]"
            "[(''device_id'', PyList [PyInt 1])]"]
    by simp
qed

text \<open>
  C3, as stated, fails on the value of the marker: a lookup that the registry answers with
  404, and one that times out, both return \<^verbatim>\<open>'other'\<close>, and the stored record carries the
  device type \<^verbatim>\<open>'other'\<close>, not \<^verbatim>\<open>'unknown'\<close>.
\<close>

theorem device_type_fallback_counterexample:
  "fst (get_device_type station (PyInt 42)) = Inr (PyStr ''other'') \<and>
   fst (get_device_type station (PyInt 9)) = Inr (PyStr ''other'') \<and>
   fst (get_device_type station (PyInt 42)) \<noteq> Inr (PyStr ''unknown'') \<and>
   docs (telemetry_collection (on_telemetry station 5 (Some (PyDict unknown_reading)) noon)) =
     [[(''device_id'', PyInt 42), (''timestamp'', PyStr ''2024-01-15T12:00:00''),
       (''temperature'', PyInt 21), (''device_type'', PyStr ''other''), (''_id'', ObjectId 0)]]"
  by (simp add: consumer_eval payload_eval station_def unknown_reading_def)

text \<open>
  C3, amended. For every telemetry message whose device-type lookup fails (the device id
  is truthy, hashable and not in the cache, and the request raises, returns a status other
  than 200 or a body that is not a JSON object), \<^verbatim>\<open>_get_device_type\<close> returns the fallback
  type \<^verbatim>\<open>'other'\<close>; the handler makes that one request, then hands the event with device
  type \<^verbatim>\<open>'other'\<close> to the store, and acknowledges last. When the store accepts the insert,
  the record with device type \<^verbatim>\<open>'other'\<close> is the new last document of the collection and,
  if the broadcast callback is set, the record without its \<^verbatim>\<open>_id\<close> is queued for
  broadcast. The lookup is one request with a timeout; nothing is retried.
\<close>

theorem lookup_failure_falls_back_to_other:
  assumes "as_dict decoded = Some payload"
    and "p = flatten_data (default_timestamp payload now)"
    and "truthy (device_id_of p)" and "hashable (device_id_of p)"
    and "map_of (device_type_cache w) (py_key (device_id_of p)) = None"
    and "lookup_fails (registry w (device_id_of p))"
  shows "fst (get_device_type w (device_id_of p)) = Inr (PyStr ''other'') \<and>
     take 2 (new_actions w (on_telemetry w tag (Some decoded) now)) =
       [HttpGet (device_id_of p), InsertTelemetry (py_set p ''device_type'' (PyStr ''other''))] \<and>
     last (new_actions w (on_telemetry w tag (Some decoded) now)) = Ack tag \<and>
     (TelemetryDAO_insert (telemetry_collection w)
        (py_set p ''device_type'' (PyStr ''other'')) now = (Inr oid, stored, c) \<longrightarrow>
        telemetry_collection (on_telemetry w tag (Some decoded) now) = c \<and>
        docs c = docs (telemetry_collection w) @ [stored] \<and>
        py_get stored ''device_type'' = Some (PyStr ''other'') \<and>
        new_actions w (on_telemetry w tag (Some decoded) now) =
          [HttpGet (device_id_of p), InsertTelemetry (py_set p ''device_type'' (PyStr ''other''))] @
          (if socketio_callback w
           then [Broadcast ''telemetry'' (filter (\<lambda>kv. fst kv \<noteq> ''_id'') stored)] else []) @
          [Ack tag] \<and>
        socketio (on_telemetry w tag (Some decoded) now) =
          (if socketio_callback w
           then queue_broadcast (socketio w) ''telemetry'' (filter (\<lambda>kv. fst kv \<noteq> ''_id'') stored)
           else socketio w))"
proof -
  let ?q = "py_set p ''device_type'' (PyStr ''other'')"
  have a: "fst (get_device_type w (device_id_of p)) = Inr (PyStr ''other'')"
    using get_device_type_fallback [OF assms(4,5,6)] by auto
  have b: "take 2 (new_actions w (on_telemetry w tag (Some decoded) now)) =
       [HttpGet (device_id_of p), InsertTelemetry ?q]"
    using on_telemetry_fallback(1) [OF assms] .
  obtain acts where "new_actions w (on_telemetry w tag (Some decoded) now) = acts @ [Ack tag]"
    using on_telemetry_actions by blast
  then have l: "last (new_actions w (on_telemetry w tag (Some decoded) now)) = Ack tag"
    by simp
  have s: "telemetry_collection (on_telemetry w tag (Some decoded) now) = c \<and>
        docs c = docs (telemetry_collection w) @ [stored] \<and>
        py_get stored ''device_type'' = Some (PyStr ''other'') \<and>
        new_actions w (on_telemetry w tag (Some decoded) now) =
          [HttpGet (device_id_of p), InsertTelemetry ?q] @
          (if socketio_callback w
           then [Broadcast ''telemetry'' (filter (\<lambda>kv. fst kv \<noteq> ''_id'') stored)] else []) @
          [Ack tag] \<and>
        socketio (on_telemetry w tag (Some decoded) now) =
          (if socketio_callback w
           then queue_broadcast (socketio w) ''telemetry'' (filter (\<lambda>kv. fst kv \<noteq> ''_id'') stored)
           else socketio w)"
    if i: "TelemetryDAO_insert (telemetry_collection w) ?q now = (Inr oid, stored, c)"
  proof -
    have i': "EventsDAO_insert (telemetry_collection w) ?q now = (Inr oid, stored, c) \<or>
              TelemetryDAO_insert (telemetry_collection w) ?q now = (Inr oid, stored, c)"
      using i by simp
    have "docs c = docs (telemetry_collection w) @ [stored]"
      using dao_insert_stored [OF i'] by simp
    moreover have "py_get stored ''device_type'' = Some (PyStr ''other'')"
      using dao_insert_field [OF i', of "''device_type''"] by (simp add: py_get_py_set)
    ultimately show ?thesis using on_telemetry_fallback(2) [OF assms i] by simp
  qed
  show ?thesis using a b l s by blast
qed

theorem lookup_failure_falls_back_to_other_witness:
  "as_dict (PyDict unknown_reading) = Some unknown_reading \<and>
   truthy (device_id_of (flatten_data (default_timestamp unknown_reading noon))) \<and>
   hashable (device_id_of (flatten_data (default_timestamp unknown_reading noon))) \<and>
   map_of (device_type_cache station)
     (py_key (device_id_of (flatten_data (default_timestamp unknown_reading noon)))) = None \<and>
   lookup_fails
     (registry station (device_id_of (flatten_data (default_timestamp unknown_reading noon)))) \<and>
   take 2 (new_actions station (on_telemetry station 5 (Some (PyDict unknown_reading)) noon)) =
     [HttpGet (PyInt 42),
      InsertTelemetry [(''device_id'', PyInt 42), (''timestamp'', PyStr ''2024-01-15T12:00:00''),
                       (''temperature'', PyInt 21), (''device_type'', PyStr ''other'')]] \<and>
   telemetry_collection (on_telemetry station 5 (Some (PyDict unknown_reading)) noon) =
     \<lparr>docs = [[(''device_id'', PyInt 42), (''timestamp'', PyStr ''2024-01-15T12:00:00''),
               (''temperature'', PyInt 21), (''device_type'', PyStr ''other''),
               (''_id'', ObjectId 0)]],
      next_oid = 1, mongo_faults = []\<rparr>"
proof -
  let ?p = "flatten_data (default_timestamp unknown_reading noon)"
  have p: "?p = [(''device_id'', PyInt 42), (''timestamp'', PyStr ''2024-01-15T12:00:00''),
                 (''temperature'', PyInt 21)]"
    by (simp add: payload_eval unknown_reading_def)
  have h1: "as_dict (PyDict unknown_reading) = Some unknown_reading"
    by (simp add: as_dict_def)
  have d: "device_id_of ?p = PyInt 42"
    unfolding p by (simp add: device_id_of_def py_get_def)
  have h3: "truthy (device_id_of ?p)" and h4: "hashable (device_id_of ?p)"
    unfolding d by simp_all
  have h5: "map_of (device_type_cache station) (py_key (device_id_of ?p)) = None"
    unfolding d by (simp add: station_def)
  have h6: "lookup_fails (registry station (device_id_of ?p))"
    unfolding d by (simp add: station_def lookup_fails_def as_dict_def)
  have i: "TelemetryDAO_insert (telemetry_collection station)
             (py_set ?p ''device_type'' (PyStr ''other'')) noon =
           (Inr (ObjectId 0),
            [(''device_id'', PyInt 42), (''timestamp'', PyStr ''2024-01-15T12:00:00''),
             (''temperature'', PyInt 21), (''device_type'', PyStr ''other''),
             (''_id'', ObjectId 0)],
            \<lparr>docs = [[(''device_id'', PyInt 42), (''timestamp'', PyStr ''2024-01-15T12:00:00''),
               (''temperature'', PyInt 21), (''device_type'', PyStr ''other''),
               (''_id'', ObjectId 0)]],
             next_oid = 1, mongo_faults = []\<rparr>)"
    unfolding p
    by (simp add: TelemetryDAO_insert_def insert_one_def mongo_fault_def has_key_def py_set_def
          py_get_def station_def empty_collection_def Let_def)
  have q: "py_set ?p ''device_type'' (PyStr ''other'') =
      [(''device_id'', PyInt 42), (''timestamp'', PyStr ''2024-01-15T12:00:00''),
       (''temperature'', PyInt 21), (''device_type'', PyStr ''other'')]"
    unfolding p by (simp add: py_set_def)
  show ?thesis
    using h1 h3 h4 h5 h6 i d q
      lookup_failure_falls_back_to_other [OF h1 refl h3 h4 h5 h6, of 5]
    by simp
qed

subsection \<open>Records that the stores accept\<close>

lemma collect_raises: "x \<in> set xs \<Longrightarrow> f x = Inl e \<Longrightarrow> \<exists>e'. collect f xs = Inl e'"
  by (induction xs) (auto split: sum.splits)

lemma event_response_requires_device_id:
  "\<not> has_key doc ''device_id'' \<Longrightarrow> \<exists>e. event_response v doc = Inl e"
  by (simp add: event_response_def has_key_py_get split: option.splits)

lemma telemetry_response_requires_device_id:
  assumes "\<not> has_key doc ''device_id''"
  shows "\<exists>e. telemetry_response v doc = Inl e"
proof -
  have "py_get (py_pop doc ''_id'') ''device_id'' = None"
    using assms by (simp add: has_key_def py_get_def py_pop_def delete_conv' map_of_eq_None_iff)
  then show ?thesis by (simp add: telemetry_response_def Let_def split: option.splits)
qed

text \<open>
  One record without a device id in the cursor makes the whole query raise, for every
  filter and limit that reach it.
\<close>

lemma get_all_raises_without_device_id:
  assumes "d \<in> set cursor" and "\<not> has_key d ''device_id''"
  shows "find_sorted c (build_query dev_id ''event_type'' ev_type) ''timestamp'' n =
           (Inr cursor, c1) \<Longrightarrow> \<exists>e. EventsDAO_get_all v c dev_id ev_type n = (Inl e, c1)"
    and "find_sorted c (build_query dev_id ''device_type'' dev_type) ''timestamp'' n =
           (Inr cursor, c1) \<Longrightarrow> \<exists>e. TelemetryDAO_get_all v c dev_id dev_type n = (Inl e, c1)"
proof -
  obtain e where "event_response v d = Inl e"
    using event_response_requires_device_id [OF assms(2)] by blast
  then obtain e' where e: "collect (event_response v) cursor = Inl e'"
    using collect_raises [OF assms(1)] by blast
  show "find_sorted c (build_query dev_id ''event_type'' ev_type) ''timestamp'' n =
           (Inr cursor, c1) \<Longrightarrow> \<exists>e. EventsDAO_get_all v c dev_id ev_type n = (Inl e, c1)"
    using e by (simp add: EventsDAO_get_all_def)
  obtain x where "telemetry_response v d = Inl x"
    using telemetry_response_requires_device_id [OF assms(2)] by blast
  then obtain x' where x: "collect (telemetry_response v) cursor = Inl x'"
    using collect_raises [OF assms(1)] by blast
  show "find_sorted c (build_query dev_id ''device_type'' dev_type) ''timestamp'' n =
           (Inr cursor, c1) \<Longrightarrow> \<exists>e. TelemetryDAO_get_all v c dev_id dev_type n = (Inl e, c1)"
    using x by (simp add: TelemetryDAO_get_all_def)
qed

lemmas insert_eval =
  EventsDAO_insert_def TelemetryDAO_insert_def insert_one_def get_telemetry_def isoformat_noon

text \<open>
  C9 does not hold of the code. Neither \<^verbatim>\<open>insert\<close> nor the consumer in front of it looks at
  the device id, and of the timestamp they test only that the key is there. An alert
  without a device id is written to the events collection, by \<^verbatim>\<open>EventsDAO.insert\<close> and by
  the device-event handler alike, and a reading without one to the telemetry collection;
  an event whose timestamp is \<^verbatim>\<open>null\<close> is written with that timestamp. The read path
  requires what the write path did not: after each of these inserts the unfiltered query
  of the store raises, where before the insert it returned the three events.
\<close>

theorem insert_stores_record_without_device_id:
  "EventsDAO_insert event_log [(''event_type'', PyStr ''alert'')] noon =
     (Inr (ObjectId 3),
      [(''event_type'', PyStr ''alert''), (''timestamp'', PyStr ''2024-01-15T12:00:00''),
       (''_id'', ObjectId 3)],
      event_log\<lparr>docs := docs event_log @
                  [[(''event_type'', PyStr ''alert''),
                    (''timestamp'', PyStr ''2024-01-15T12:00:00''), (''_id'', ObjectId 3)]],
                next_oid := 4\<rparr>) \<and>
   \<not> has_key [(''event_type'', PyStr ''alert''), (''timestamp'', PyStr ''2024-01-15T12:00:00''),
              (''_id'', ObjectId 3)] ''device_id'' \<and>
   length (case fst (get_events by_type event_log None None None) of
             Inl e \<Rightarrow> [] | Inr rs \<Rightarrow> rs) = 3 \<and>
   fst (get_events by_type
          (snd (snd (EventsDAO_insert event_log [(''event_type'', PyStr ''alert'')] noon)))
          None None None) = Inl (KeyError ''device_id'') \<and>
   events_collection
     (on_device_event station 5 (Some (PyDict [(''event_type'', PyStr ''alert'')])) noon) =
     \<lparr>docs = [[(''event_type'', PyStr ''alert''),
               (''timestamp'', PyStr ''2024-01-15T12:00:00''), (''_id'', ObjectId 0)]],
      next_oid = 1, mongo_faults = []\<rparr> \<and>
   fst (TelemetryDAO_insert telemetry_log [(''temperature'', PyInt 21)] noon) =
     Inr (ObjectId 2) \<and>
   fst (get_telemetry by_type
          (snd (snd (TelemetryDAO_insert telemetry_log [(''temperature'', PyInt 21)] noon)))
          None None None) = Inl (KeyError ''device_id'') \<and>
   fst (snd (EventsDAO_insert event_log
               [(''device_id'', PyInt 7), (''event_type'', PyStr ''alert''),
                (''timestamp'', PyNone)] noon)) =
     [(''device_id'', PyInt 7), (''event_type'', PyStr ''alert''), (''timestamp'', PyNone),
      (''_id'', ObjectId 3)] \<and>
   fst (get_events by_type
          (snd (snd (EventsDAO_insert event_log
                       [(''device_id'', PyInt 7), (''event_type'', PyStr ''alert''),
                        (''timestamp'', PyNone)] noon)))
          None None None) = Inl PydanticValidationError"
proof -
  have a: "EventsDAO_insert event_log [(''event_type'', PyStr ''alert'')] noon =
     (Inr (ObjectId 3),
      [(''event_type'', PyStr ''alert''), (''timestamp'', PyStr ''2024-01-15T12:00:00''),
       (''_id'', ObjectId 3)],
      event_log\<lparr>docs := docs event_log @
                  [[(''event_type'', PyStr ''alert''),
                    (''timestamp'', PyStr ''2024-01-15T12:00:00''), (''_id'', ObjectId 3)]],
                next_oid := 4\<rparr>)"
    by (simp add: insert_eval store_eval event_log_def)
  have b: "length (case fst (get_events by_type event_log None None None) of
             Inl e \<Rightarrow> [] | Inr rs \<Rightarrow> rs) = 3"
    by (simp add: store_eval event_log_def)
  have c: "fst (get_events by_type
          (event_log\<lparr>docs := docs event_log @
                  [[(''event_type'', PyStr ''alert''),
                    (''timestamp'', PyStr ''2024-01-15T12:00:00''), (''_id'', ObjectId 3)]],
                next_oid := 4\<rparr>)
          None None None) = Inl (KeyError ''device_id'')"
    by (simp add: store_eval event_log_def)
  have d: "events_collection
     (on_device_event station 5 (Some (PyDict [(''event_type'', PyStr ''alert'')])) noon) =
     \<lparr>docs = [[(''event_type'', PyStr ''alert''),
               (''timestamp'', PyStr ''2024-01-15T12:00:00''), (''_id'', ObjectId 0)]],
      next_oid = 1, mongo_faults = []\<rparr>"
    by (simp add: consumer_eval payload_eval station_def)
  have e: "TelemetryDAO_insert telemetry_log [(''temperature'', PyInt 21)] noon =
     (Inr (ObjectId 2),
      [(''temperature'', PyInt 21), (''timestamp'', PyStr ''2024-01-15T12:00:00''),
       (''_id'', ObjectId 2)],
      telemetry_log\<lparr>docs := docs telemetry_log @
                  [[(''temperature'', PyInt 21),
                    (''timestamp'', PyStr ''2024-01-15T12:00:00''), (''_id'', ObjectId 2)]],
                next_oid := 3\<rparr>)"
    by (simp add: insert_eval store_eval telemetry_log_def)
  have f: "fst (get_telemetry by_type
          (telemetry_log\<lparr>docs := docs telemetry_log @
                  [[(''temperature'', PyInt 21),
                    (''timestamp'', PyStr ''2024-01-15T12:00:00''), (''_id'', ObjectId 2)]],
                next_oid := 3\<rparr>)
          None None None) = Inl (KeyError ''device_id'')"
    by (simp add: insert_eval store_eval telemetry_eval telemetry_log_def)
  have g: "EventsDAO_insert event_log
               [(''device_id'', PyInt 7), (''event_type'', PyStr ''alert''),
                (''timestamp'', PyNone)] noon =
     (Inr (ObjectId 3),
      [(''device_id'', PyInt 7), (''event_type'', PyStr ''alert''), (''timestamp'', PyNone),
       (''_id'', ObjectId 3)],
      event_log\<lparr>docs := docs event_log @
                  [[(''device_id'', PyInt 7), (''event_type'', PyStr ''alert''),
                    (''timestamp'', PyNone), (''_id'', ObjectId 3)]],
                next_oid := 4\<rparr>)"
    by (simp add: insert_eval store_eval event_log_def)
  have h: "fst (get_events by_type
          (event_log\<lparr>docs := docs event_log @
                  [[(''device_id'', PyInt 7), (''event_type'', PyStr ''alert''),
                    (''timestamp'', PyNone), (''_id'', ObjectId 3)]],
                next_oid := 4\<rparr>)
          None None None) = Inl PydanticValidationError"
    by (simp add: store_eval event_log_def)
  have i: "\<not> has_key [(''event_type'', PyStr ''alert''),
                      (''timestamp'', PyStr ''2024-01-15T12:00:00''),
                      (''_id'', ObjectId 3)] ''device_id''"
    by (simp add: has_key_def)
  show ?thesis
    unfolding a e g using b c d f h i by simp
qed

end
